theory Spec2Isabelle
  imports Complex_Main "HOL-Library.Word"
begin

section \<open>Sunburn Monitor: the device controller\<close>

text \<open>
  A shallow embedding of the Arduino sketch (ATmega168/328, 8 MHz): the globals of the
  sketch are the fields of the record \<open>device\<close>, every function of the sketch is a HOL
  function from device to device, and whatever the sketch reads from the hardware
  (\<open>millis()\<close>, the debounced buttons, the ADC, the UV sensor, the interrupt that ends a
  sleep) is an argument. \<open>byte\<close> is \<open>8 word\<close>, \<open>uint16_t\<close> and \<open>int\<close> are \<open>16 word\<close>
  (\<open>int\<close> is 16 bits wide on AVR), \<open>unsigned long\<close> is \<open>32 word\<close>. A \<open>float\<close> is
  the real number it denotes, and every operation on floats rounds its exact result to
  the nearest float (\<open>float32\<close> below).
\<close>

subsection \<open>The defines\<close>

definition EE_CHECKBYTE_1 :: nat where "EE_CHECKBYTE_1 = 125"
definition EE_CHECKBYTE_2 :: nat where "EE_CHECKBYTE_2 = 126"
definition EE_SKIN_TYPE :: nat where "EE_SKIN_TYPE = 127"

definition STATE_POWER_OFF :: "8 word" where "STATE_POWER_OFF = 0"
definition STATE_CONFIG :: "8 word" where "STATE_CONFIG = 1"
definition STATE_RUNNING :: "8 word" where "STATE_RUNNING = 2"
definition STATE_COMPLETED :: "8 word" where "STATE_COMPLETED = 4"

definition SET_TIMEOUT :: "32 word" where "SET_TIMEOUT = 30000"
definition MAX_RUNNING_TIME :: "16 word" where "MAX_RUNNING_TIME = 720"
definition MIN_BATT_VOLTS :: "16 word" where "MIN_BATT_VOLTS = 270"
definition LONG_CLICK_MS :: "32 word" where "LONG_CLICK_MS = 1000"

definition NOTE_C4 :: nat where "NOTE_C4 = 262"
definition NOTE_G4 :: nat where "NOTE_G4 = 392"
definition NOTE_C5 :: nat where "NOTE_C5 = 523"
definition NOTE_D5 :: nat where "NOTE_D5 = 587"
definition NOTE_G5 :: nat where "NOTE_G5 = 784"
definition NOTE_B5 :: nat where "NOTE_B5 = 988"
definition NOTE_C6 :: nat where "NOTE_C6 = 1047"
definition NOTE_D6 :: nat where "NOTE_D6 = 1175"
definition NOTE_G6 :: nat where "NOTE_G6 = 1568"
definition NOTE_C7 :: nat where "NOTE_C7 = 2093"
definition NOTE_A7 :: nat where "NOTE_A7 = 3520"

subsection \<open>The globals and what the device does to the outside\<close>

text \<open>
  Everything the sketch does to the outside is appended to \<open>trace\<close>, in program order:
  \<open>Tone f v l b\<close> is \<open>toneAC(f, v, l, b)\<close>, \<open>ToneOff\<close> is \<open>toneAC(0)\<close>,
  \<open>SensorPower True\<close> is \<open>digitalWrite(UV_SENSOR_PWR_PIN, LOW)\<close> (the FET is active low),
  \<open>AdcRead\<close> is one conversion of the bandgap channel, \<open>UvBegin\<close> and \<open>UvRead\<close> are
  \<open>uv.begin()\<close> and \<open>uv.readUV()\<close>, \<open>Sleep\<close> is \<open>sleep_mode()\<close>. \<open>PlayAlarm\<close> stands
  for the whole of \<open>playAlarm()\<close>, the frequency sweeps and the pauses between them.
\<close>

datatype action =
    Tone nat nat nat bool
  | ToneOff
  | Delay nat
  | SensorPower bool
  | EepromWrite nat "8 word"
  | AdcRead
  | UvBegin
  | UvRead
  | PlayAlarm
  | Sleep

datatype fault = OutOfBounds | DivideByZero | NeverReturns

record device =
  state :: "8 word"
  setTimer :: "32 word"
  buttonTime :: "32 word"
  runningTimer :: "16 word"
  skinType :: "8 word"
  minutesToBurn :: real
  wdtSleepCount :: "8 word"
  vccVoltage :: "16 word"
  eeprom :: "nat \<Rightarrow> 8 word"
  uvSensorOn :: bool
  wdtEnabled :: bool
  int0Attached :: bool
  trace :: "action list"

text \<open>The two lookup tables, as the sketch initialises them (six elements each).\<close>

definition skinTypeMinutesPerUVI :: "16 word list" where
  "skinTypeMinutesPerUVI = [0, 67, 100, 200, 400, 500]"

definition pressesPerSPF :: "8 word list" where
  "pressesPerSPF = [0, 1, 10, 15, 30, 45]"

text \<open>
  Reading a C array: inside the array the element, past its end undefined behaviour,
  which is the fault \<open>OutOfBounds\<close> here.
\<close>

definition index :: "'a list \<Rightarrow> nat \<Rightarrow> fault + 'a" where
  "index xs i = (if i < length xs then Inr (xs ! i) else Inl OutOfBounds)"

definition emit :: "action list \<Rightarrow> device \<Rightarrow> device" where
  "emit as d = d\<lparr>trace := trace d @ as\<rparr>"

definition sensorPower :: "bool \<Rightarrow> device \<Rightarrow> device" where
  "sensorPower on d = emit [SensorPower on] (d\<lparr>uvSensorOn := on\<rparr>)"

definition eepromWrite :: "nat \<Rightarrow> 8 word \<Rightarrow> device \<Rightarrow> device" where
  "eepromWrite a v d = emit [EepromWrite a v] (d\<lparr>eeprom := (eeprom d)(a := v)\<rparr>)"

subsection \<open>Tone sequences\<close>

definition playStartup :: "device \<Rightarrow> device" where
  "playStartup = emit
     [Tone NOTE_C4 10 150 False, Tone NOTE_G4 10 150 False, Tone NOTE_C5 10 150 False,
      Tone NOTE_G5 10 150 False, Tone NOTE_C6 10 150 False, ToneOff]"

definition playShutdown :: "device \<Rightarrow> device" where
  "playShutdown = emit
     [Tone NOTE_C6 10 150 False, Tone NOTE_G5 10 150 False, Tone NOTE_C5 10 150 False,
      Tone NOTE_G4 10 150 False, Tone NOTE_C4 10 150 False, ToneOff]"

definition playStart :: "device \<Rightarrow> device" where
  "playStart = emit
     [Tone NOTE_D5 10 150 False, Tone NOTE_G6 10 150 False, Tone NOTE_B5 10 150 False,
      Tone NOTE_D6 10 250 False, Tone NOTE_B5 10 150 False, Tone NOTE_D6 10 500 False,
      ToneOff]"

definition shortBeep :: "device \<Rightarrow> device" where
  "shortBeep = emit [Tone NOTE_A7 10 10 True, ToneOff]"

definition playAlarm :: "device \<Rightarrow> device" where
  "playAlarm = emit [PlayAlarm]"

text \<open>\<open>countBeep(count, freq)\<close>: \<open>for (int i = 1; i <= count; i++)\<close>, a tone and a pause.\<close>

definition countBeep :: "8 word \<Rightarrow> nat \<Rightarrow> device \<Rightarrow> device" where
  "countBeep count freq =
     emit (concat (replicate (unat count) [Tone freq 10 75 False, Delay 150]))"

subsection \<open>The exposure model\<close>

text \<open>
  \<open>minutesToBurn = skinTypeMinutesPerUVI[skinType] * uint16_t(pressesPerSPF[index])\<close>:
  the product is taken in \<open>uint16_t\<close> (it wraps at \<open>2 ^ 16\<close>) and then converted to
  \<open>float\<close>, which holds every \<open>uint16_t\<close> exactly.
\<close>

definition calculateTimeToBurn :: "8 word \<Rightarrow> device \<Rightarrow> fault + device" where
  "calculateTimeToBurn idx d =
     (case index skinTypeMinutesPerUVI (unat (skinType d)) of
        Inl e \<Rightarrow> Inl e
      | Inr m \<Rightarrow>
          (case index pressesPerSPF (unat idx) of
             Inl e \<Rightarrow> Inl e
           | Inr s \<Rightarrow> Inr (d\<lparr>minutesToBurn := real (unat (m * ucast s))\<rparr>)))"

text \<open>
  The arithmetic of \<open>float\<close>, 32 bits wide (on AVR \<open>double\<close> is the same type):
  \<open>float32 x\<close> is the float nearest to \<open>x\<close>, the one with the even significand when
  two are equally near. \<open>normalise\<close> scales \<open>x\<close> by powers of two until it lies between
  \<open>2 ^ 23\<close> and \<open>2 ^ 24\<close>, or the exponent is that of the subnormal numbers;
  \<open>roundEven\<close> rounds the scaled number to an integer, the 24-bit significand. The
  fuel of \<open>normalise\<close> is more than the exponents of a float need. A result of
  magnitude \<open>2 ^ 128\<close> or more, which the hardware type rounds to infinity, is outside
  this model; the budget, set from a \<open>uint16_t\<close> and lowered by readings of a
  \<open>uint16_t\<close> while it is positive, stays far below.
\<close>

fun normalise :: "nat \<Rightarrow> real \<Rightarrow> int \<Rightarrow> real \<times> int" where
  "normalise 0 m e = (m, e)"
| "normalise (Suc n) m e =
     (if 2 ^ 24 \<le> \<bar>m\<bar> then normalise n (m / 2) (e + 1)
      else if \<bar>m\<bar> < 2 ^ 23 \<and> - 149 < e then normalise n (m * 2) (e - 1)
      else (m, e))"

definition roundEven :: "real \<Rightarrow> int" where
  "roundEven m =
     (let f = \<lfloor>m\<rfloor>
      in if m - of_int f < 1 / 2 then f
         else if 1 / 2 < m - of_int f then f + 1
         else if even f then f else f + 1)"

definition float32 :: "real \<Rightarrow> real" where
  "float32 x =
     (if x = 0 then 0
      else case normalise 300 x 0 of (m, e) \<Rightarrow> of_int (roundEven m) * 2 powi e)"

text \<open>
  \<open>doMeasure()\<close>: power the sensor, read it, power it down; the reading is the UV index
  times 100. \<open>raw\<close> is what \<open>uv.readUV()\<close> returns, a \<open>uint16_t\<close>; its conversion to
  \<open>float\<close> is exact. The division by \<open>100.0\<close>, the product with 1 and the subtraction
  each round.
\<close>

definition doMeasure :: "16 word \<Rightarrow> device \<Rightarrow> device" where
  "doMeasure raw d =
     (let d1 = emit [Delay 200] (sensorPower True d);
          d2 = emit [UvBegin, Delay 100, UvRead] d1;
          d3 = sensorPower False d2;
          UVindex = float32 (real (unat raw) / 100)
      in d3\<lparr>minutesToBurn := float32 (minutesToBurn d3 - float32 (1 * UVindex))\<rparr>)"

text \<open>
  \<open>getBandgap()\<close>: the supply voltage times 100 from one conversion of the bandgap
  channel; \<open>adc\<close> is the value the \<open>ADC\<close> register holds after the conversion. The
  arithmetic is in \<open>long\<close>, the result is cut to \<open>int\<close>. A register value of zero
  is a division by zero, the fault \<open>DivideByZero\<close>.
\<close>

definition getBandgap :: "16 word \<Rightarrow> device \<Rightarrow> fault + (16 word \<times> device)" where
  "getBandgap adc d =
     (let d1 = emit [Delay 50, AdcRead] d
      in if adc = 0 then Inl DivideByZero
         else Inr (word_of_nat ((((1056 * 1023) div unat adc) + 5) div 10), d1))"

subsection \<open>Interrupts and sleep\<close>

definition enable_watchdog :: "device \<Rightarrow> device" where
  "enable_watchdog d = d\<lparr>wdtEnabled := True\<rparr>"

definition disable_watchdog :: "device \<Rightarrow> device" where
  "disable_watchdog d = d\<lparr>wdtEnabled := False\<rparr>"

text \<open>\<open>attachInterrupt(0, pin2_isr, LOW)\<close>.\<close>

definition attachInterrupt :: "device \<Rightarrow> device" where
  "attachInterrupt d = d\<lparr>int0Attached := True\<rparr>"

text \<open>The handler of INT0: \<open>sleep_disable(); detachInterrupt(0)\<close>.\<close>

definition pin2_isr :: "device \<Rightarrow> device" where
  "pin2_isr d = d\<lparr>int0Attached := False\<rparr>"

text \<open>The handler of the watchdog interrupt: \<open>wdtSleepCount++\<close>.\<close>

definition WDT_vect :: "device \<Rightarrow> device" where
  "WDT_vect d = d\<lparr>wdtSleepCount := wdtSleepCount d + 1\<rparr>"

text \<open>
  \<open>sleepNow()\<close> halts the processor in \<open>SLEEP_MODE_PWR_DOWN\<close> until an interrupt
  arrives; the handler runs and \<open>sleepNow\<close> returns. \<open>irq\<close> is the interrupt the
  hardware raises. A source that is not enabled cannot wake the processor: the call
  does not return. Interrupts are delivered at the sleeps only.
\<close>

datatype irq = INT0 | WDT

definition sleepNow :: "irq \<Rightarrow> device \<Rightarrow> fault + device" where
  "sleepNow i d =
     (let d1 = emit [Sleep] d
      in case i of
           INT0 \<Rightarrow> if int0Attached d1 then Inr (pin2_isr d1) else Inl NeverReturns
         | WDT \<Rightarrow> if wdtEnabled d1 then Inr (WDT_vect d1) else Inl NeverReturns)"

subsection \<open>Buttons\<close>

text \<open>
  One poll of a Bounce button is the pair of \<open>update()\<close> (the debounced level changed)
  and \<open>read()\<close>. A press that is timed reads \<open>millis()\<close> when it is seen
  (\<open>timedFrom\<close>), polls the button until it reads a change to \<open>HIGH\<close> (\<open>holdPolls\<close>),
  and reads \<open>millis()\<close> again (\<open>timedTo\<close>).
\<close>

datatype level = LOW | HIGH

record hold =
  timedFrom :: "32 word"
  holdPolls :: "(bool \<times> level) list"
  timedTo :: "32 word"

text \<open>
  The loop \<open>while(1) { if (b.update()) { if (b.read() == HIGH) break; } }\<close> over the
  polls it is given: \<open>True\<close> when it leaves, \<open>False\<close> when no poll lets it leave.
\<close>

fun waitRelease :: "(bool \<times> level) list \<Rightarrow> bool" where
  "waitRelease [] = False"
| "waitRelease (p # ps) = (if fst p then (if snd p = HIGH then True else waitRelease ps)
                           else waitRelease ps)"

definition pressed :: "bool \<times> level \<Rightarrow> bool" where
  "pressed p = (fst p \<and> snd p = LOW)"

text \<open>
  The test of the power button in the running state (the sketch has it twice, with the
  same text): the result says whether the press was a long one.
\<close>

definition powerButton :: "bool \<times> level \<Rightarrow> hold \<Rightarrow> device \<Rightarrow> fault + (bool \<times> device)" where
  "powerButton p h d =
     (if fst p then
        (if snd p = LOW then
           (let d1 = d\<lparr>buttonTime := timedFrom h\<rparr>
            in if waitRelease (holdPolls h)
               then (if timedTo h - buttonTime d1 < LONG_CLICK_MS then Inr (False, d1)
                     else Inr (True, d1))
               else Inl NeverReturns)
         else Inr (False, d))
      else Inr (False, d))"

subsection \<open>The configuration state\<close>

text \<open>
  The locals of \<open>doConfig()\<close>. (Its local \<open>buttonTime\<close> is written and read within one
  press; it is the \<open>timedFrom\<close> of that press.)
\<close>

record locals =
  spfIndex :: "8 word"
  tempSkinType :: "8 word"
  skinTypeNotPressed :: "8 word"

text \<open>
  What one turn of the loop of \<open>doConfig()\<close> reads: \<open>millis()\<close> in the loop condition
  (\<open>tLoop\<close>), the set button, for a press of it \<open>millis()\<close> when the press is seen
  (\<open>setPressAt\<close>), the timed hold, and \<open>millis()\<close> when the release is seen
  (\<open>setReleasedAt\<close>); the skin button and \<open>millis()\<close> when its press is seen.
\<close>

record config_poll =
  tLoop :: "32 word"
  setPoll :: "bool \<times> level"
  setPressAt :: "32 word"
  setHold :: hold
  setReleasedAt :: "32 word"
  skinPoll :: "bool \<times> level"
  skinPressAt :: "32 word"

datatype flow = Continue locals device | Return device

text \<open>
  The long press of set. First the skin type is made current and stored, if it is not
  the one \<open>skinType\<close> holds; then the choices are played back, the budget is computed
  and the running state is entered.
\<close>

definition storeSkinType :: "locals \<Rightarrow> device \<Rightarrow> device" where
  "storeSkinType l d =
     (if tempSkinType l \<noteq> skinType d
      then eepromWrite EE_SKIN_TYPE (tempSkinType l) (d\<lparr>skinType := tempSkinType l\<rparr>)
      else d)"

definition commit :: "locals \<Rightarrow> device \<Rightarrow> fault + device" where
  "commit l d =
     (let d1 = storeSkinType l d;
          d2 = emit [Delay 1000] (countBeep (spfIndex l) NOTE_C5 d1);
          d3 = emit [Delay 1000] (countBeep (skinType d2) NOTE_C6 d2)
      in case calculateTimeToBurn (spfIndex l) d3 of
           Inl e \<Rightarrow> Inl e
         | Inr d4 \<Rightarrow>
             Inr (enable_watchdog (playStart (sensorPower False (d4\<lparr>state := STATE_RUNNING\<rparr>)))))"

definition setButtonTest :: "config_poll \<Rightarrow> locals \<Rightarrow> device \<Rightarrow> fault + flow" where
  "setButtonTest p l d =
     (if fst (setPoll p) then
        (if snd (setPoll p) = LOW then
           (let d1 = d\<lparr>setTimer := setPressAt p\<rparr>
            in if waitRelease (holdPolls (setHold p)) then
                 (let d2 = d1\<lparr>setTimer := setReleasedAt p\<rparr>
                  in if timedTo (setHold p) - timedFrom (setHold p) < LONG_CLICK_MS then
                       (if spfIndex l < 6
                        then Inr (Continue (l\<lparr>spfIndex := spfIndex l + 1\<rparr>)
                                   (emit [Tone NOTE_C5 10 50 True] d2))
                        else Inr (Continue (l\<lparr>spfIndex := 1\<rparr>)
                                   (emit [Tone NOTE_C7 10 40 False, Tone NOTE_C5 10 50 False] d2)))
                     else (case commit l d2 of Inl e \<Rightarrow> Inl e | Inr d3 \<Rightarrow> Inr (Return d3)))
               else Inl NeverReturns)
         else Inr (Continue l d))
      else Inr (Continue l d))"

definition skinButtonTest :: "config_poll \<Rightarrow> locals \<Rightarrow> device \<Rightarrow> locals \<times> device" where
  "skinButtonTest p l d =
     (if fst (skinPoll p) then
        (if snd (skinPoll p) = LOW then
           (let d1 = d\<lparr>setTimer := skinPressAt p\<rparr>;
                l1 = (if skinTypeNotPressed l \<noteq> 0
                      then l\<lparr>tempSkinType := 0, skinTypeNotPressed := 0\<rparr> else l)
            in if tempSkinType l1 < 6
               then (l1\<lparr>tempSkinType := tempSkinType l1 + 1\<rparr>, emit [Tone NOTE_C6 10 50 True] d1)
               else (l1\<lparr>tempSkinType := 1\<rparr>,
                     emit [Tone NOTE_C5 10 40 False, Tone NOTE_C6 10 50 False] d1))
         else (l, d))
      else (l, d))"

text \<open>The body of the loop: the set button, then the skin button.\<close>

definition configBody :: "config_poll \<Rightarrow> locals \<Rightarrow> device \<Rightarrow> fault + flow" where
  "configBody p l d =
     (case setButtonTest p l d of
        Inl e \<Rightarrow> Inl e
      | Inr (Return d1) \<Rightarrow> Inr (Return d1)
      | Inr (Continue l1 d1) \<Rightarrow>
          (case skinButtonTest p l1 d1 of (l2, d2) \<Rightarrow> Inr (Continue l2 d2)))"

text \<open>
  \<open>while ((millis() - setTimer) < SET_TIMEOUT)\<close>, one \<open>config_poll\<close> per turn; after the
  loop \<open>state = STATE_POWER_OFF\<close>. With no poll left the loop has not ended: no result.
\<close>

fun configLoop :: "config_poll list \<Rightarrow> locals \<Rightarrow> device \<Rightarrow> fault + device" where
  "configLoop [] l d = Inl NeverReturns"
| "configLoop (p # ps) l d =
     (if tLoop p - setTimer d < SET_TIMEOUT then
        (case configBody p l d of
           Inl e \<Rightarrow> Inl e
         | Inr (Return d1) \<Rightarrow> Inr d1
         | Inr (Continue l1 d1) \<Rightarrow> configLoop ps l1 d1)
      else Inr (d\<lparr>state := STATE_POWER_OFF\<rparr>))"

text \<open>\<open>doConfig()\<close>; \<open>tEnter\<close> is \<open>millis()\<close> at \<open>setTimer = millis()\<close> before the loop.\<close>

record config_in =
  tEnter :: "32 word"
  polls :: "config_poll list"

definition doConfig :: "config_in \<Rightarrow> device \<Rightarrow> fault + device" where
  "doConfig c d =
     (let d1 = d\<lparr>runningTimer := 0, wdtSleepCount := 0\<rparr>;
          l = \<lparr>spfIndex = 1, tempSkinType = skinType d1, skinTypeNotPressed = 1\<rparr>;
          d2 = playStartup d1;
          d3 = d2\<lparr>setTimer := tEnter c\<rparr>
      in configLoop (polls c) l d3)"

subsection \<open>The main loop\<close>

text \<open>
  What one pass of \<open>loop()\<close> reads: in the configuration state what \<open>doConfig()\<close>
  reads, in the running state the power button, the ADC and the UV sensor, and at a
  sleep the interrupt that ends it.
\<close>

record loop_in =
  cfg :: config_in
  pwrPoll :: "bool \<times> level"
  pwrHold :: hold
  adc :: "16 word"
  uvRaw :: "16 word"
  wake :: irq

text \<open>
  The end of the sampling branch: the supply voltage and its tone, the measurement,
  the test of the budget.
\<close>

definition sample :: "loop_in \<Rightarrow> device \<Rightarrow> fault + device" where
  "sample i d =
     (case getBandgap (adc i) d of
        Inl e \<Rightarrow> Inl e
      | Inr (v, d1) \<Rightarrow>
          (let d2 = d1\<lparr>vccVoltage := v\<rparr>;
               d3 = (if vccVoltage d2 <=s MIN_BATT_VOLTS
                     then emit [Tone NOTE_C4 10 150 True] d2
                     else shortBeep d2);
               d4 = doMeasure (uvRaw i) d3
           in if minutesToBurn d4 \<le> 0
              then Inr ((disable_watchdog d4)\<lparr>state := STATE_COMPLETED\<rparr>)
              else sleepNow (wake i) (d4\<lparr>wdtSleepCount := 0\<rparr>)))"

definition running :: "loop_in \<Rightarrow> device \<Rightarrow> fault + device" where
  "running i d =
     (if wdtSleepCount d = 15 then
        (let d1 = d\<lparr>wdtSleepCount := 0\<rparr>;
             d2 = d1\<lparr>runningTimer := runningTimer d1 + 1\<rparr>
         in if runningTimer d2 = MAX_RUNNING_TIME
            then Inr ((disable_watchdog d2)\<lparr>state := STATE_POWER_OFF\<rparr>)
            else (case powerButton (pwrPoll i) (pwrHold i) d2 of
                    Inl e \<Rightarrow> Inl e
                  | Inr (True, d3) \<Rightarrow> Inr ((disable_watchdog d3)\<lparr>state := STATE_POWER_OFF\<rparr>)
                  | Inr (False, d3) \<Rightarrow> sample i d3))
      else (case powerButton (pwrPoll i) (pwrHold i) d of
              Inl e \<Rightarrow> Inl e
            | Inr (True, d1) \<Rightarrow> Inr (d1\<lparr>state := STATE_POWER_OFF\<rparr>)
            | Inr (False, d1) \<Rightarrow> sleepNow (wake i) d1))"

text \<open>The power-off case up to the sleep, and the whole case.\<close>

definition powerOffEntry :: "device \<Rightarrow> device" where
  "powerOffEntry d =
     (let d1 = sensorPower False d;
          d2 = d1\<lparr>runningTimer := 0\<rparr>;
          d3 = emit [Delay 100] d2;
          d4 = playShutdown d3;
          d5 = disable_watchdog d4
      in attachInterrupt d5)"

definition powerOff :: "loop_in \<Rightarrow> device \<Rightarrow> fault + device" where
  "powerOff i d =
     (case sleepNow (wake i) (powerOffEntry d) of
        Inl e \<Rightarrow> Inl e
      | Inr d1 \<Rightarrow> Inr ((emit [Delay 200] d1)\<lparr>state := STATE_CONFIG\<rparr>))"

text \<open>One pass of \<open>loop()\<close>: the \<open>switch (state)\<close>.\<close>

definition loop :: "loop_in \<Rightarrow> device \<Rightarrow> fault + device" where
  "loop i d =
     (if state d = STATE_CONFIG then
        (case doConfig (cfg i) d of
           Inl e \<Rightarrow> Inl e
         | Inr d1 \<Rightarrow>
             if state d1 = STATE_POWER_OFF then Inr d1
             else sleepNow (wake i) (enable_watchdog d1))
      else if state d = STATE_RUNNING then running i d
      else if state d = STATE_COMPLETED then Inr ((playAlarm d)\<lparr>state := STATE_POWER_OFF\<rparr>)
      else if state d = STATE_POWER_OFF then powerOff i d
      else Inr d)"

text \<open>
  Passes of \<open>loop()\<close> one after the other, one \<open>loop_in\<close> each: the devices after each
  pass, in order. A pass that does not return ends the run without a result.
\<close>

fun passes :: "loop_in list \<Rightarrow> device \<Rightarrow> fault + device list" where
  "passes [] d = Inr []"
| "passes (i # is) d =
     (case loop i d of
        Inl e \<Rightarrow> Inl e
      | Inr d1 \<Rightarrow> (case passes is d1 of Inl e \<Rightarrow> Inl e | Inr ds \<Rightarrow> Inr (d1 # ds)))"

subsection \<open>Power-up\<close>

text \<open>
  The globals as the C start-up code leaves them (the initialisers of the sketch, zero
  for a global without one, such as \<open>skinType\<close>), around the EEPROM as it is found.
\<close>

definition powerUp :: "(nat \<Rightarrow> 8 word) \<Rightarrow> device" where
  "powerUp ee =
     \<lparr>state = STATE_CONFIG, setTimer = 0, buttonTime = 0, runningTimer = 0, skinType = 0,
      minutesToBurn = 0, wdtSleepCount = 0, vccVoltage = 0, eeprom = ee,
      uvSensorOn = False, wdtEnabled = False, int0Attached = False, trace = []\<rparr>"

text \<open>
  \<open>setup()\<close>, here \<open>setup_fn\<close>. It reads the result of \<open>uv.begin()\<close>, the UV sensor and
  the ADC. When the sensor is not found it plays a tone and stays in \<open>while (1)\<close>.
\<close>

record setup_in =
  uvFound :: bool
  uvRaw0 :: "16 word"
  adc0 :: "16 word"

definition setup_fn :: "setup_in \<Rightarrow> device \<Rightarrow> fault + device" where
  "setup_fn i d =
     (let d1 = sensorPower True (disable_watchdog d);
          d2 = (if eeprom d1 EE_CHECKBYTE_1 = 0xBA \<and> eeprom d1 EE_CHECKBYTE_2 = 0xDA
                then d1\<lparr>skinType := eeprom d1 EE_SKIN_TYPE\<rparr>
                else eepromWrite EE_SKIN_TYPE 1
                       (eepromWrite EE_CHECKBYTE_2 0xDA (eepromWrite EE_CHECKBYTE_1 0xBA d1)));
          d3 = emit [Delay 200, UvBegin] d2
      in if \<not> uvFound i then Inl NeverReturns
         else (case getBandgap (adc0 i) (doMeasure (uvRaw0 i) d3) of
                 Inl e \<Rightarrow> Inl e
               | Inr (v, d4) \<Rightarrow>
                   Inr ((sensorPower False (playStartup (d4\<lparr>vccVoltage := v\<rparr>)))
                          \<lparr>state := STATE_POWER_OFF\<rparr>)))"

text \<open>
  The sketch as the Arduino core runs it: \<open>setup()\<close> once, then \<open>loop()\<close> again and
  again. The result is the device after \<open>setup()\<close> and after each pass.
\<close>

definition sketch :: "(nat \<Rightarrow> 8 word) \<Rightarrow> setup_in \<Rightarrow> loop_in list \<Rightarrow> fault + device list" where
  "sketch ee s js =
     (case setup_fn s (powerUp ee) of
        Inl e \<Rightarrow> Inl e
      | Inr d \<Rightarrow> (case passes js d of Inl e \<Rightarrow> Inl e | Inr ds \<Rightarrow> Inr (d # ds)))"

subsection \<open>Notions used to state the properties\<close>

text \<open>
  Turns of the body of the loop of \<open>doConfig()\<close> one after the other, without the test
  of the time in between: what a sequence of button events does to the locals.
\<close>

fun configTurns :: "config_poll list \<Rightarrow> locals \<Rightarrow> device \<Rightarrow> fault + flow" where
  "configTurns [] l d = Inr (Continue l d)"
| "configTurns (p # ps) l d =
     (case configBody p l d of
        Inl e \<Rightarrow> Inl e
      | Inr (Return d1) \<Rightarrow> Inr (Return d1)
      | Inr (Continue l1 d1) \<Rightarrow> configTurns ps l1 d1)"

text \<open>The locals of a flow that is still in the loop.\<close>

fun localsOf :: "fault + flow \<Rightarrow> locals option" where
  "localsOf (Inr (Continue l d)) = Some l"
| "localsOf (Inr (Return d)) = None"
| "localsOf (Inl e) = None"

text \<open>A view of what a call returns, when it returns.\<close>

fun outcome :: "('b \<Rightarrow> 'a) \<Rightarrow> fault + 'b \<Rightarrow> 'a option" where
  "outcome f (Inr d) = Some (f d)"
| "outcome f (Inl e) = None"

text \<open>What a call appended to the trace of \<open>d\<close>.\<close>

definition emitted :: "device \<Rightarrow> device \<Rightarrow> action list" where
  "emitted d d' = drop (length (trace d)) (trace d')"

fun isEepromWrite :: "action \<Rightarrow> bool" where
  "isEepromWrite (EepromWrite a v) = True"
| "isEepromWrite _ = False"

text \<open>The writes to the EEPROM in the trace of a device, and the skin type its EEPROM holds.\<close>

definition eepromWrites :: "device \<Rightarrow> action list" where
  "eepromWrites d = filter isEepromWrite (trace d)"

definition storedSkinType :: "device \<Rightarrow> 8 word" where
  "storedSkinType d = eeprom d EE_SKIN_TYPE"

text \<open>
  A held button that is released before the long-click time: the hold loop ends and
  less than \<open>LONG_CLICK_MS\<close> have passed. A long press: it ends and at least
  \<open>LONG_CLICK_MS\<close> have passed.
\<close>

definition shortHold :: "hold \<Rightarrow> bool" where
  "shortHold h = (waitRelease (holdPolls h) \<and> timedTo h - timedFrom h < LONG_CLICK_MS)"

definition longHold :: "hold \<Rightarrow> bool" where
  "longHold h = (waitRelease (holdPolls h) \<and> LONG_CLICK_MS \<le> timedTo h - timedFrom h)"

text \<open>
  A sampling point: a pass of \<open>loop()\<close> in the running state in which the minute is
  over, the session ceiling is not reached, and the power button is not pressed or
  pressed for a short time only. These are the passes that reach the measurement.
\<close>

definition samplingPoint :: "loop_in \<Rightarrow> device \<Rightarrow> bool" where
  "samplingPoint i d =
     (state d = STATE_RUNNING \<and> wdtSleepCount d = 15 \<and>
      runningTimer d + 1 \<noteq> MAX_RUNNING_TIME \<and>
      (if pressed (pwrPoll i) then shortHold (pwrHold i) else True))"


text \<open>
  The budgets \<open>calculateTimeToBurn\<close> can give for a skin type: the products of its
  table entry with the entries of \<open>pressesPerSPF\<close>.
\<close>

definition initialBudgets :: "8 word \<Rightarrow> real list" where
  "initialBudgets c =
     (case index skinTypeMinutesPerUVI (unat c) of
        Inl e \<Rightarrow> []
      | Inr m \<Rightarrow> map (\<lambda>s. real (unat (m * ucast s))) pressesPerSPF)"

text \<open>
  A run of passes that starts at \<open>d\<close> keeps the budget of \<open>d\<close> pass after pass, up to
  the first pass that ends in the running state; that pass started in the configuration
  state, and the budget it leaves is one that \<open>calculateTimeToBurn\<close> gives.
\<close>

fun untilNewSession :: "device \<Rightarrow> device list \<Rightarrow> bool" where
  "untilNewSession d [] = True"
| "untilNewSession d (x # xs) =
     (if state x = STATE_RUNNING
      then state d = STATE_CONFIG \<and> minutesToBurn x \<in> set (initialBudgets (skinType x))
      else minutesToBurn x = minutesToBurn d \<and> untilNewSession x xs)"





subsection \<open>Inputs for the examples\<close>

definition quiet :: "bool \<times> level" where "quiet = (False, HIGH)"
definition fell :: "bool \<times> level" where "fell = (True, LOW)"
definition rose :: "bool \<times> level" where "rose = (True, HIGH)"

definition noHold :: hold where
  "noHold = \<lparr>timedFrom = 0, holdPolls = [], timedTo = 0\<rparr>"

text \<open>A turn with no button event at time \<open>t\<close>; a press of skin; a press of set held for \<open>len\<close>.\<close>

definition idlePoll :: "32 word \<Rightarrow> config_poll" where
  "idlePoll t =
     \<lparr>tLoop = t, setPoll = quiet, setPressAt = 0, setHold = noHold, setReleasedAt = 0,
      skinPoll = quiet, skinPressAt = 0\<rparr>"

definition skinClick :: "32 word \<Rightarrow> config_poll" where
  "skinClick t = (idlePoll t)\<lparr>skinPoll := fell, skinPressAt := t\<rparr>"

definition setClick :: "32 word \<Rightarrow> 32 word \<Rightarrow> config_poll" where
  "setClick t len =
     (idlePoll t)\<lparr>setPoll := fell, setPressAt := t,
       setHold := \<lparr>timedFrom = t, holdPolls = [quiet, rose], timedTo = t + len\<rparr>,
       setReleasedAt := t + len\<rparr>"

text \<open>An erased EEPROM, and one that holds the check bytes and a skin type.\<close>

definition blank :: "nat \<Rightarrow> 8 word" where
  "blank = (\<lambda>a. 0xFF)"

definition seeded :: "8 word \<Rightarrow> nat \<Rightarrow> 8 word" where
  "seeded c = blank(EE_CHECKBYTE_1 := 0xBA, EE_CHECKBYTE_2 := 0xDA, EE_SKIN_TYPE := c)"

text \<open>A pass in the running state with no button held, a reading of the ADC and of the sensor.\<close>

definition minuteIn :: "16 word \<Rightarrow> 16 word \<Rightarrow> loop_in" where
  "minuteIn a u =
     \<lparr>cfg = \<lparr>tEnter = 0, polls = []\<rparr>, pwrPoll = quiet, pwrHold = noHold,
      adc = a, uvRaw = u, wake = WDT\<rparr>"

text \<open>A device in the running state: \<open>m\<close> minutes run, \<open>c\<close> watchdog periods, budget \<open>b\<close>.\<close>

definition runningAt :: "16 word \<Rightarrow> 8 word \<Rightarrow> real \<Rightarrow> device" where
  "runningAt m c b =
     (powerUp (seeded 1))\<lparr>state := STATE_RUNNING, runningTimer := m, wdtSleepCount := c,
        skinType := 1, minutesToBurn := b, wdtEnabled := True\<rparr>"

text \<open>
  A pass that wakes the device with the power button, and a pass in the configuration
  state entered at \<open>t\<close> in which set is held for 1500 ms, with nothing pressed before.
\<close>

definition wakeIn :: loop_in where
  "wakeIn = (minuteIn 400 0)\<lparr>wake := INT0\<rparr>"

definition startIn :: "32 word \<Rightarrow> loop_in" where
  "startIn t = (minuteIn 400 0)\<lparr>cfg := \<lparr>tEnter = t, polls = [setClick (t + 500) 1500]\<rparr>\<rparr>"

text \<open>
  A pass in the configuration state entered at \<open>t\<close> in which no button is touched, with
  turns of the loop 10 and 30 seconds after the entry.
\<close>

definition idleIn :: "32 word \<Rightarrow> loop_in" where
  "idleIn t = (minuteIn 400 0)\<lparr>cfg := \<lparr>tEnter = t,
                 polls = [idlePoll (t + 10000), idlePoll (t + 30000)]\<rparr>\<rparr>"

text \<open>
  A power-up that finds the sensor; a pass in the configuration state entered at \<open>t\<close>
  with one press of skin and then set held for 1500 ms.
\<close>

definition bootIn :: setup_in where
  "bootIn = \<lparr>uvFound = True, uvRaw0 = 0, adc0 = 400\<rparr>"

definition skinStartIn :: "32 word \<Rightarrow> loop_in" where
  "skinStartIn t = (minuteIn 400 0)\<lparr>cfg := \<lparr>tEnter = t,
                     polls = [skinClick (t + 500), setClick (t + 1000) 1500]\<rparr>\<rparr>"

text \<open>A pass in the configuration state entered at 0 with the given turns of the loop.\<close>

definition configIn :: "config_poll list \<Rightarrow> loop_in" where
  "configIn ps = (minuteIn 400 0)\<lparr>cfg := \<lparr>tEnter = 0, polls = ps\<rparr>\<rparr>"

section \<open>Properties\<close>

lemmas state_defs =
  STATE_POWER_OFF_def STATE_CONFIG_def STATE_RUNNING_def STATE_COMPLETED_def

lemmas table_defs = index_def skinTypeMinutesPerUVI_def pressesPerSPF_def

lemmas input_defs =
  quiet_def fell_def rose_def noHold_def idlePoll_def skinClick_def setClick_def
  blank_def seeded_def minuteIn_def runningAt_def powerUp_def wakeIn_def startIn_def
  idleIn_def bootIn_def skinStartIn_def configIn_def

lemmas config_defs =
  doConfig_def configBody_def setButtonTest_def skinButtonTest_def commit_def
  storeSkinType_def
  calculateTimeToBurn_def playStartup_def playStart_def countBeep_def emit_def
  eepromWrite_def sensorPower_def enable_watchdog_def SET_TIMEOUT_def LONG_CLICK_MS_def
  EE_SKIN_TYPE_def

lemmas run_defs =
  loop_def running_def sample_def powerButton_def getBandgap_def doMeasure_def
  sleepNow_def WDT_vect_def pin2_isr_def disable_watchdog_def enable_watchdog_def
  shortBeep_def emit_def sensorPower_def powerOff_def powerOffEntry_def playShutdown_def
  playAlarm_def attachInterrupt_def MAX_RUNNING_TIME_def MIN_BATT_VOLTS_def
  LONG_CLICK_MS_def pressed_def shortHold_def longHold_def

text \<open>Evaluating \<open>float32\<close> at a number: one step of \<open>normalise\<close> at a time.\<close>

lemma normalise_fuel:
  "normalise n m e =
     (if n = 0 then (m, e)
      else if 2 ^ 24 \<le> \<bar>m\<bar> then normalise (n - 1) (m / 2) (e + 1)
      else if \<bar>m\<bar> < 2 ^ 23 \<and> - 149 < e then normalise (n - 1) (m * 2) (e - 1)
      else (m, e))"
  by (cases n) simp_all

lemmas float_defs = float32_def normalise_fuel roundEven_def

lemma float32_zero: "float32 0 = 0"
  by (simp add: float32_def)


subsection \<open>The initial budget\<close>

text \<open>
  With both indices inside the tables the budget is the product of the two entries; the
  largest product, \<open>500 * 45\<close>, is far from the wrap-around of \<open>uint16_t\<close>.
\<close>

lemma calculateTimeToBurn_in_tables:
  assumes "unat (skinType d) < 6" "unat idx < 6"
  shows "calculateTimeToBurn idx d =
     Inr (d\<lparr>minutesToBurn := real (unat (skinTypeMinutesPerUVI ! unat (skinType d)))
                               * real (unat (pressesPerSPF ! unat idx))\<rparr>)"
proof -
  have s: "unat (skinType d) \<in> {0, 1, 2, 3, 4, 5}" using assms(1) by auto
  have i: "unat idx \<in> {0, 1, 2, 3, 4, 5}" using assms(2) by auto
  show ?thesis using s i
    by (auto simp add: calculateTimeToBurn_def table_defs)
qed

lemma calculateTimeToBurn_class_3_spf_15:
  "calculateTimeToBurn 3 (d\<lparr>skinType := 3\<rparr>) = Inr (d\<lparr>skinType := 3, minutesToBurn := 3000\<rparr>)"
  by (simp add: calculateTimeToBurn_def table_defs)

text \<open>
  C3. The budget is the product of the table entry of the skin class and the SPF
  multiplier for the classes 1 to 5 (\<open>calculateTimeToBurn_in_tables\<close>), and class 3 with
  SPF 15 gives 3000. For class 6 it is not: \<open>skinTypeMinutesPerUVI\<close> has the six elements
  0 to 5, and the read of element 6 is past the end of the table, whatever the SPF.
\<close>

theorem calculateTimeToBurn_class_6:
  "calculateTimeToBurn idx (d\<lparr>skinType := 6\<rparr>) = Inl OutOfBounds"
  by (simp add: calculateTimeToBurn_def table_defs)

text \<open>
  C1. The lookups are not always inside the tables. Six presses of skin select class 6
  and the long press of set then reads \<open>skinTypeMinutesPerUVI[6]\<close>; five short presses
  of set bring the SPF index to 6 and the long press then reads \<open>pressesPerSPF[6]\<close>.
  Both tables have six elements.
\<close>

theorem doConfig_reads_past_the_tables:
  "doConfig \<lparr>tEnter = 0, polls = [skinClick 100, skinClick 200, skinClick 300,
       skinClick 400, skinClick 500, skinClick 600, setClick 7000 1000]\<rparr>
     ((powerUp (seeded 1))\<lparr>skinType := 1\<rparr>) = Inl OutOfBounds
   \<and> doConfig \<lparr>tEnter = 0, polls = [setClick 100 50, setClick 200 50, setClick 300 50,
       setClick 400 50, setClick 500 50, setClick 7000 1000]\<rparr>
     ((powerUp (seeded 1))\<lparr>skinType := 1\<rparr>) = Inl OutOfBounds"
  by (simp add: config_defs table_defs input_defs Let_def)


subsection \<open>Cycling the skin class and the SPF index\<close>

text \<open>A press of skin: 1 on the first press, then up to 6 and back to 1; never 0.\<close>

lemma skinButtonTest_press:
  assumes "pressed (skinPoll p)"
  shows "tempSkinType (fst (skinButtonTest p l d)) =
           (if skinTypeNotPressed l \<noteq> 0 then 1
            else if tempSkinType l < 6 then tempSkinType l + 1 else 1)
       \<and> skinTypeNotPressed (fst (skinButtonTest p l d)) = 0
       \<and> spfIndex (fst (skinButtonTest p l d)) = spfIndex l"
  using assms by (simp add: skinButtonTest_def pressed_def Let_def)

lemma skinButtonTest_range:
  assumes "pressed (skinPoll p)"
  shows "1 \<le> tempSkinType (fst (skinButtonTest p l d))
       \<and> tempSkinType (fst (skinButtonTest p l d)) \<le> 6"
proof (cases "skinTypeNotPressed l \<noteq> 0 \<or> \<not> tempSkinType l < 6")
  case True
  then show ?thesis using assms by (auto simp add: skinButtonTest_def pressed_def Let_def)
next
  case False
  then have lt: "tempSkinType l < 6" and np: "skinTypeNotPressed l = 0" by simp_all
  from lt have "unat (tempSkinType l) < 6" by (simp add: word_less_nat_alt)
  then have "unat (tempSkinType l + 1) = unat (tempSkinType l) + 1"
    by (simp add: unat_word_ariths)
  with \<open>unat (tempSkinType l) < 6\<close>
  have "1 \<le> tempSkinType l + 1 \<and> tempSkinType l + 1 \<le> 6"
    by (simp add: word_le_nat_alt)
  with lt np assms show ?thesis by (simp add: skinButtonTest_def pressed_def Let_def)
qed

lemma skin_cycle_example:
  "map_option tempSkinType (localsOf (configTurns
       [skinClick 100, skinClick 200, skinClick 300, skinClick 400, skinClick 500,
        skinClick 600]
       \<lparr>spfIndex = 1, tempSkinType = 3, skinTypeNotPressed = 1\<rparr> (powerUp (seeded 3))))
     = Some 6
   \<and> map_option tempSkinType (localsOf (configTurns
       [skinClick 100, skinClick 200, skinClick 300, skinClick 400, skinClick 500,
        skinClick 600, skinClick 700]
       \<lparr>spfIndex = 1, tempSkinType = 3, skinTypeNotPressed = 1\<rparr> (powerUp (seeded 3))))
     = Some 1"
  by (simp add: config_defs input_defs Let_def)

text \<open>A short press of set: the index goes up while it is below 6, and from 6 back to 1.\<close>

lemma setButtonTest_short_press:
  assumes "pressed (setPoll p)" "shortHold (setHold p)"
  shows "localsOf (setButtonTest p l d) =
           Some (l\<lparr>spfIndex := (if spfIndex l < 6 then spfIndex l + 1 else 1)\<rparr>)"
  using assms by (simp add: setButtonTest_def pressed_def shortHold_def Let_def)

text \<open>
  C2. The skin class cycles as claimed (\<open>skinButtonTest_press\<close>,
  \<open>skinButtonTest_range\<close>). The SPF index does not wrap after 5: the guard is
  \<open>spfIndex < 6\<close>, so the fifth short press of set makes it 6, and only the sixth
  brings it back to 1.
\<close>

theorem spfIndex_reaches_6:
  "map_option spfIndex (localsOf (configTurns
       [setClick 100 50, setClick 200 50, setClick 300 50, setClick 400 50, setClick 500 50]
       \<lparr>spfIndex = 1, tempSkinType = 1, skinTypeNotPressed = 1\<rparr> (powerUp (seeded 1))))
     = Some 6
   \<and> map_option spfIndex (localsOf (configTurns
       [setClick 100 50, setClick 200 50, setClick 300 50, setClick 400 50, setClick 500 50,
        setClick 600 50]
       \<lparr>spfIndex = 1, tempSkinType = 1, skinTypeNotPressed = 1\<rparr> (powerUp (seeded 1))))
     = Some 1"
  by (simp add: config_defs input_defs Let_def)


subsection \<open>Power-up with an erased EEPROM\<close>

text \<open>
  When the check bytes are not found, \<open>setup()\<close> writes them and the skin type 1 to the
  EEPROM, and leaves the variable \<open>skinType\<close> as it is: zero. When they are found, it
  loads \<open>skinType\<close> from the EEPROM and writes nothing.
\<close>

lemma setup_fn_first_boot:
  assumes "\<not> (ee EE_CHECKBYTE_1 = 0xBA \<and> ee EE_CHECKBYTE_2 = 0xDA)" "uvFound i"
    "adc0 i \<noteq> 0"
  shows "outcome skinType (setup_fn i (powerUp ee)) = Some 0
       \<and> outcome eeprom (setup_fn i (powerUp ee)) =
           Some (ee(EE_CHECKBYTE_1 := 0xBA, EE_CHECKBYTE_2 := 0xDA, EE_SKIN_TYPE := 1))
       \<and> outcome state (setup_fn i (powerUp ee)) = Some STATE_POWER_OFF"
  using assms
  by (auto simp add: setup_fn_def run_defs powerUp_def eepromWrite_def playStartup_def Let_def)

lemma setup_fn_later_boot:
  assumes "ee EE_CHECKBYTE_1 = 0xBA" "ee EE_CHECKBYTE_2 = 0xDA" "uvFound i" "adc0 i \<noteq> 0"
  shows "outcome skinType (setup_fn i (powerUp ee)) = Some (ee EE_SKIN_TYPE)
       \<and> outcome eeprom (setup_fn i (powerUp ee)) = Some ee"
  using assms
  by (auto simp add: setup_fn_def run_defs powerUp_def eepromWrite_def playStartup_def Let_def)

text \<open>
  With \<open>skinType\<close> zero, a session started without a press of skin has the budget
  \<open>skinTypeMinutesPerUVI[0] * 1\<close>, which is zero.
\<close>

lemma first_session_after_first_boot:
  "outcome minutesToBurn (loop (startIn 1000) ((powerUp (seeded 1))\<lparr>skinType := 0\<rparr>)) = Some 0"
  by (simp add: startIn_def config_defs table_defs input_defs run_defs state_defs Let_def)

text \<open>
  C6. On the first boot the EEPROM is seeded with the check bytes and the skin type 1,
  and the boot goes on to power-off as any other boot. The skin class of the session is
  not 1: the branch that seeds the EEPROM does not assign \<open>skinType\<close>, which keeps the
  zero of its definition, the unused index of the table.
\<close>

theorem setup_fn_blank_eeprom:
  "outcome skinType (setup_fn \<lparr>uvFound = True, uvRaw0 = 0, adc0 = 400\<rparr> (powerUp blank))
     = Some 0
   \<and> outcome eeprom (setup_fn \<lparr>uvFound = True, uvRaw0 = 0, adc0 = 400\<rparr> (powerUp blank))
     = Some (seeded 1)
   \<and> outcome state (setup_fn \<lparr>uvFound = True, uvRaw0 = 0, adc0 = 400\<rparr> (powerUp blank))
     = Some STATE_POWER_OFF"
  by (simp add: setup_fn_def run_defs input_defs eepromWrite_def playStartup_def
      EE_SKIN_TYPE_def EE_CHECKBYTE_1_def EE_CHECKBYTE_2_def Let_def)


subsection \<open>The session ceiling\<close>

text \<open>
  C4. A pass in the running state that completes minute 720 only stops the watchdog and
  sets the state to power-off: nothing is measured, no tone is played, the budget is
  what it was, whatever its value. The pass after it is the power-off case, which plays
  the shutdown tones and no alarm, and leaves for the configuration state when the power
  button wakes the device.
\<close>

theorem session_ceiling_powers_off:
  assumes "state d = STATE_RUNNING" "wdtSleepCount d = 15"
    "runningTimer d + 1 = MAX_RUNNING_TIME"
  shows "loop i d = Inr (d\<lparr>wdtSleepCount := 0, runningTimer := MAX_RUNNING_TIME,
                          wdtEnabled := False, state := STATE_POWER_OFF\<rparr>)
    \<and> outcome state (loop j (d\<lparr>wdtSleepCount := 0, runningTimer := MAX_RUNNING_TIME,
                          wdtEnabled := False, state := STATE_POWER_OFF\<rparr>))
         = (if wake j = INT0 then Some STATE_CONFIG else None)
    \<and> outcome trace (loop j (d\<lparr>wdtSleepCount := 0, runningTimer := MAX_RUNNING_TIME,
                          wdtEnabled := False, state := STATE_POWER_OFF\<rparr>))
         = (if wake j = INT0
            then Some (trace d @ [SensorPower False, Delay 100, Tone NOTE_C6 10 150 False,
                   Tone NOTE_G5 10 150 False, Tone NOTE_C5 10 150 False,
                   Tone NOTE_G4 10 150 False, Tone NOTE_C4 10 150 False, ToneOff,
                   Sleep, Delay 200])
            else None)"
proof -
  have "loop i d = Inr (d\<lparr>wdtSleepCount := 0, runningTimer := MAX_RUNNING_TIME,
                          wdtEnabled := False, state := STATE_POWER_OFF\<rparr>)"
    using assms by (simp add: loop_def running_def state_defs disable_watchdog_def Let_def)
  then show ?thesis
    by (cases "wake j") (simp_all add: run_defs state_defs Let_def)
qed

theorem session_ceiling_powers_off_witness:
  "state (runningAt 719 15 67) = STATE_RUNNING \<and> wdtSleepCount (runningAt 719 15 67) = 15
   \<and> runningTimer (runningAt 719 15 67) + 1 = MAX_RUNNING_TIME
   \<and> 0 < minutesToBurn (runningAt 719 15 67)
   \<and> outcome state (loop (minuteIn 400 0) (runningAt 719 15 67)) = Some STATE_POWER_OFF
   \<and> outcome minutesToBurn (loop (minuteIn 400 0) (runningAt 719 15 67)) = Some 67
   \<and> outcome trace (loop (minuteIn 400 0) (runningAt 719 15 67)) = Some []"
  using session_ceiling_powers_off [of "runningAt 719 15 67" "minuteIn 400 0" wakeIn]
  by (simp add: input_defs MAX_RUNNING_TIME_def state_defs)


subsection \<open>Power-off\<close>

text \<open>
  C10. The power-off case powers the UV sensor down and sets \<open>runningTimer\<close> to zero
  before it sleeps (\<open>powerOffEntry\<close> is the case up to the sleep, and it has not slept
  yet). Only INT0, the power button, ends the sleep, the watchdog being stopped; the
  pass then ends in the configuration state, and in no other.
\<close>

theorem power_off_leaves_for_config:
  assumes "state d = STATE_POWER_OFF"
  shows "\<not> uvSensorOn (powerOffEntry d) \<and> runningTimer (powerOffEntry d) = 0
     \<and> SensorPower False \<in> set (emitted d (powerOffEntry d))
     \<and> Sleep \<notin> set (emitted d (powerOffEntry d))
     \<and> loop i d = (if wake i = INT0
          then Inr ((powerOffEntry d)\<lparr>int0Attached := False,
                 trace := trace (powerOffEntry d) @ [Sleep, Delay 200], state := STATE_CONFIG\<rparr>)
          else Inl NeverReturns)"
  using assms by (cases "wake i") (simp_all add: run_defs state_defs emitted_def Let_def)

theorem power_off_leaves_for_config_witness:
  "state ((runningAt 720 0 67)\<lparr>state := STATE_POWER_OFF, uvSensorOn := True\<rparr>)
       = STATE_POWER_OFF
   \<and> uvSensorOn ((runningAt 720 0 67)\<lparr>state := STATE_POWER_OFF, uvSensorOn := True\<rparr>)
   \<and> runningTimer ((runningAt 720 0 67)\<lparr>state := STATE_POWER_OFF, uvSensorOn := True\<rparr>)
       = 720
   \<and> outcome state
        (loop wakeIn ((runningAt 720 0 67)\<lparr>state := STATE_POWER_OFF, uvSensorOn := True\<rparr>))
       = Some STATE_CONFIG
   \<and> outcome runningTimer
        (loop wakeIn ((runningAt 720 0 67)\<lparr>state := STATE_POWER_OFF, uvSensorOn := True\<rparr>))
       = Some 0
   \<and> outcome uvSensorOn
        (loop wakeIn ((runningAt 720 0 67)\<lparr>state := STATE_POWER_OFF, uvSensorOn := True\<rparr>))
       = Some False"
  using power_off_leaves_for_config
    [of "(runningAt 720 0 67)\<lparr>state := STATE_POWER_OFF, uvSensorOn := True\<rparr>" wakeIn]
  by (simp add: wakeIn_def input_defs run_defs state_defs Let_def)


subsection \<open>The sampling cycle\<close>

text \<open>At a sampling point the power button does not end the pass.\<close>

lemma powerButton_sampling:
  assumes "if pressed p then shortHold h else True"
  shows "powerButton p h d =
           Inr (False, if pressed p then d\<lparr>buttonTime := timedFrom h\<rparr> else d)"
  using assms
  by (cases p; cases "snd p") (auto simp add: powerButton_def pressed_def shortHold_def Let_def)

lemma loop_sampling:
  assumes "samplingPoint i d"
  shows "loop i d = sample i (if pressed (pwrPoll i)
       then d\<lparr>wdtSleepCount := 0, runningTimer := runningTimer d + 1,
              buttonTime := timedFrom (pwrHold i)\<rparr>
       else d\<lparr>wdtSleepCount := 0, runningTimer := runningTimer d + 1\<rparr>)"
proof -
  from assms have s: "state d = STATE_RUNNING" "wdtSleepCount d = 15"
    "runningTimer d + 1 \<noteq> MAX_RUNNING_TIME"
    "if pressed (pwrPoll i) then shortHold (pwrHold i) else True"
    by (simp_all add: samplingPoint_def)
  have "running i d = sample i (if pressed (pwrPoll i)
       then d\<lparr>wdtSleepCount := 0, runningTimer := runningTimer d + 1,
              buttonTime := timedFrom (pwrHold i)\<rparr>
       else d\<lparr>wdtSleepCount := 0, runningTimer := runningTimer d + 1\<rparr>)"
    using s(2,3) by (simp add: running_def Let_def powerButton_sampling [OF s(4)])
  with s(1) show ?thesis by (simp add: loop_def state_defs)
qed

text \<open>What \<open>sample\<close> leaves behind when it returns.\<close>

lemma sample_result:
  assumes "sample i d = Inr d'"
  shows "minutesToBurn d' =
           float32 (minutesToBurn d - float32 (1 * float32 (real (unat (uvRaw i)) / 100)))"
    and "state d' = STATE_COMPLETED \<longleftrightarrow> minutesToBurn d' \<le> 0 \<or> state d = STATE_COMPLETED"
    and "vccVoltage d' = word_of_nat ((((1056 * 1023) div unat (adc i)) + 5) div 10)"
    and "trace d' = trace d @ [Delay 50, AdcRead] @
           (if vccVoltage d' <=s MIN_BATT_VOLTS then [Tone NOTE_C4 10 150 True]
            else [Tone NOTE_A7 10 10 True, ToneOff]) @
           [SensorPower True, Delay 200, UvBegin, Delay 100, UvRead, SensorPower False] @
           (if minutesToBurn d' \<le> 0 then [] else [Sleep])"
  using assms
  by (auto simp add: sample_def getBandgap_def doMeasure_def sleepNow_def WDT_vect_def
      pin2_isr_def disable_watchdog_def shortBeep_def emit_def sensorPower_def Let_def
      split: if_splits irq.splits)

text \<open>\<open>sample\<close> returns whenever the ADC reading is not zero and the budget is spent.\<close>

lemma sample_completes:
  assumes "adc i \<noteq> 0"
    "float32 (minutesToBurn d - float32 (1 * float32 (real (unat (uvRaw i)) / 100))) \<le> 0"
  shows "outcome state (sample i d) = Some STATE_COMPLETED"
  using assms
  by (simp add: sample_def getBandgap_def doMeasure_def disable_watchdog_def shortBeep_def
      emit_def sensorPower_def Let_def)

text \<open>A pass in the running state that is no sampling point leaves the budget alone.\<close>

lemma loop_not_sampling:
  assumes "state d = STATE_RUNNING" "\<not> samplingPoint i d" "loop i d = Inr d'"
  shows "state d' \<noteq> STATE_COMPLETED \<and> minutesToBurn d' = minutesToBurn d"
  using assms
  by (auto simp add: samplingPoint_def loop_def running_def powerButton_def pressed_def
      shortHold_def sleepNow_def WDT_vect_def pin2_isr_def disable_watchdog_def emit_def
      state_defs Let_def split: if_splits irq.splits)


subsection \<open>Outside the running state the budget is only set anew\<close>

lemma setButtonTest_Continue:
  assumes "setButtonTest p l d = Inr (Continue l' d')"
  shows "minutesToBurn d' = minutesToBurn d \<and> state d' = state d"
  using assms
  by (auto simp add: setButtonTest_def emit_def Let_def split: if_splits sum.splits)

lemma skinButtonTest_keeps:
  assumes "skinButtonTest p l d = (l', d')"
  shows "minutesToBurn d' = minutesToBurn d \<and> state d' = state d"
  using assms
  by (auto simp add: skinButtonTest_def emit_def Let_def split: if_splits)

lemma configBody_Continue:
  assumes "configBody p l d = Inr (Continue l' d')"
  shows "minutesToBurn d' = minutesToBurn d \<and> state d' = state d"
  using assms setButtonTest_Continue skinButtonTest_keeps
  by (fastforce simp add: configBody_def split: sum.splits flow.splits prod.splits)

lemma commit_state:
  assumes "commit l d = Inr d'"
  shows "state d' = STATE_RUNNING"
  using assms
  by (auto simp add: commit_def calculateTimeToBurn_def enable_watchdog_def playStart_def
      sensorPower_def emit_def Let_def split: sum.splits)

text \<open>The budget a commit leaves is one of the initial budgets of the skin type.\<close>

lemma commit_budget:
  assumes "commit l d = Inr d'"
  shows "minutesToBurn d' \<in> set (initialBudgets (skinType d'))"
proof -
  let ?d3 = "emit [Delay 1000] (countBeep (skinType (emit [Delay 1000]
       (countBeep (spfIndex l) NOTE_C5 (storeSkinType l d)))) NOTE_C6 (emit [Delay 1000]
       (countBeep (spfIndex l) NOTE_C5 (storeSkinType l d))))"
  from assms obtain d4 where
    c: "calculateTimeToBurn (spfIndex l) ?d3 = Inr d4"
    and d': "d' = enable_watchdog (playStart (sensorPower False (d4\<lparr>state := STATE_RUNNING\<rparr>)))"
    by (auto simp add: commit_def Let_def split: sum.splits)
  from c obtain m s where
    m: "index skinTypeMinutesPerUVI (unat (skinType ?d3)) = Inr m"
    and s: "index pressesPerSPF (unat (spfIndex l)) = Inr s"
    and d4: "d4 = ?d3\<lparr>minutesToBurn := real (unat (m * ucast s))\<rparr>"
    by (auto simp add: calculateTimeToBurn_def split: sum.splits)
  from s have "s \<in> set pressesPerSPF"
    by (auto simp add: index_def split: if_splits)
  then have "real (unat (m * ucast s)) \<in> set (initialBudgets (skinType ?d3))"
    using m by (simp add: initialBudgets_def)
  with d' d4 show ?thesis
    by (simp add: enable_watchdog_def playStart_def sensorPower_def emit_def)
qed

lemma configBody_Return:
  assumes "configBody p l d = Inr (Return d')"
  shows "state d' = STATE_RUNNING \<and> minutesToBurn d' \<in> set (initialBudgets (skinType d'))"
  using assms commit_state commit_budget
  by (fastforce simp add: configBody_def setButtonTest_def Let_def
      split: sum.splits flow.splits prod.splits if_splits)

lemma configLoop_result:
  assumes "configLoop ps l d = Inr d'"
  shows "(state d' = STATE_RUNNING \<and> minutesToBurn d' \<in> set (initialBudgets (skinType d')))
       \<or> (state d' = STATE_POWER_OFF \<and> minutesToBurn d' = minutesToBurn d)"
  using assms
proof (induction ps arbitrary: l d)
  case Nil
  then show ?case by simp
next
  case (Cons p ps)
  show ?case
  proof (cases "tLoop p - setTimer d < SET_TIMEOUT")
    case False
    with Cons.prems show ?thesis by auto
  next
    case True
    show ?thesis
    proof (cases "configBody p l d")
      case (Inl e)
      with True Cons.prems show ?thesis by simp
    next
      case (Inr f)
      show ?thesis
      proof (cases f)
        case (Continue l1 d1)
        with Inr True Cons.prems have "configLoop ps l1 d1 = Inr d'" by simp
        from Cons.IH [OF this] configBody_Continue [of p l d l1 d1] Inr Continue
        show ?thesis by auto
      next
        case (Return d1)
        with Inr True Cons.prems have "d' = d1" by simp
        with configBody_Return [of p l d d1] Inr Return show ?thesis by simp
      qed
    qed
  qed
qed

lemma doConfig_result:
  assumes "doConfig c d = Inr d'"
  shows "(state d' = STATE_RUNNING \<and> minutesToBurn d' \<in> set (initialBudgets (skinType d')))
       \<or> (state d' = STATE_POWER_OFF \<and> minutesToBurn d' = minutesToBurn d)"
  using configLoop_result [OF assms [unfolded doConfig_def Let_def]]
  by (simp add: playStartup_def emit_def)

text \<open>
  A pass that does not start in the running state: it keeps the budget, unless it
  starts in the configuration state and ends in the running state with a new budget.
\<close>

lemma loop_idle_step:
  assumes "state d \<noteq> STATE_RUNNING" "loop j d = Inr d'"
  shows "if state d' = STATE_RUNNING
         then state d = STATE_CONFIG \<and> minutesToBurn d' \<in> set (initialBudgets (skinType d'))
         else minutesToBurn d' = minutesToBurn d"
proof (cases "state d = STATE_CONFIG")
  case True
  then obtain d1 where d1: "doConfig (cfg j) d = Inr d1"
    using assms(2) by (auto simp add: loop_def split: sum.splits)
  show ?thesis
  proof (cases "state d1 = STATE_POWER_OFF")
    case p: True
    with True d1 assms(2) have "d' = d1" by (simp add: loop_def)
    with doConfig_result [OF d1] p show ?thesis by (simp add: state_defs)
  next
    case False
    with doConfig_result [OF d1]
    have r: "state d1 = STATE_RUNNING" "minutesToBurn d1 \<in> set (initialBudgets (skinType d1))"
      by simp_all
    from True d1 assms(2) False
    have "state d' = state d1 \<and> minutesToBurn d' = minutesToBurn d1 \<and> skinType d' = skinType d1"
      by (auto simp add: loop_def sleepNow_def enable_watchdog_def emit_def pin2_isr_def
          WDT_vect_def Let_def split: irq.splits if_splits)
    with r True show ?thesis by simp
  qed
next
  case False
  with assms have "state d' \<noteq> STATE_RUNNING \<and> minutesToBurn d' = minutesToBurn d"
    by (auto simp add: loop_def powerOff_def powerOffEntry_def sleepNow_def playAlarm_def
        playShutdown_def sensorPower_def attachInterrupt_def disable_watchdog_def emit_def
        pin2_isr_def WDT_vect_def state_defs Let_def split: if_splits irq.splits sum.splits)
  then show ?thesis by simp
qed

lemma loop_idle_budget:
  assumes "state d \<noteq> STATE_RUNNING" "loop j d = Inr d'" "state d' \<noteq> STATE_RUNNING"
  shows "minutesToBurn d' = minutesToBurn d"
  using loop_idle_step [OF assms(1,2)] assms(3) by simp

lemma passes_idle_budget:
  assumes "state d \<noteq> STATE_RUNNING" "passes js d = Inr ds"
    "\<forall>x\<in>set ds. state x \<noteq> STATE_RUNNING"
  shows "\<forall>x\<in>set ds. minutesToBurn x = minutesToBurn d"
  using assms
proof (induction js arbitrary: d ds)
  case Nil
  then show ?case by simp
next
  case (Cons j js)
  from Cons.prems(2) obtain d1 ds1 where
    s: "loop j d = Inr d1" "passes js d1 = Inr ds1" "ds = d1 # ds1"
    by (auto split: sum.splits)
  from Cons.prems(3) s(3)
  have n: "state d1 \<noteq> STATE_RUNNING" "\<forall>x\<in>set ds1. state x \<noteq> STATE_RUNNING"
    by simp_all
  have b: "minutesToBurn d1 = minutesToBurn d"
    by (rule loop_idle_budget [OF Cons.prems(1) s(1) n(1)])
  from Cons.IH [OF n(1) s(2) n(2)] b s(3) show ?case by simp
qed

lemma passes_untilNewSession:
  assumes "state d \<noteq> STATE_RUNNING" "passes js d = Inr ds"
  shows "untilNewSession d ds"
  using assms
proof (induction js arbitrary: d ds)
  case Nil
  then show ?case by simp
next
  case (Cons j js)
  from Cons.prems(2) obtain d1 ds1 where
    s: "loop j d = Inr d1" "passes js d1 = Inr ds1" "ds = d1 # ds1"
    by (auto split: sum.splits)
  show ?case
  proof (cases "state d1 = STATE_RUNNING")
    case True
    with loop_idle_step [OF Cons.prems(1) s(1)] s(3) show ?thesis by simp
  next
    case False
    from Cons.IH [OF False s(2)] loop_idle_step [OF Cons.prems(1) s(1)] False s(3)
    show ?thesis by simp
  qed
qed

text \<open>The completed case: the alarm, then the power-off state; nothing else changes.\<close>

lemma loop_completed:
  assumes "state c = STATE_COMPLETED"
  shows "loop j c = Inr (c\<lparr>trace := trace c @ [PlayAlarm], state := STATE_POWER_OFF\<rparr>)"
  using assms by (simp add: loop_def playAlarm_def emit_def state_defs)

text \<open>
  C5. In the running state a pass ends in the completed state exactly when it is a
  sampling point and the budget after the sample is zero or less; at a sampling point
  the budget after the sample is the budget before minus the UV index, in the
  arithmetic of \<open>float\<close>. A pass that starts in the completed state plays the alarm and
  ends in the power-off state with the budget as it was. From then on every pass keeps
  the budget, up to a pass that starts in the configuration state and ends in the
  running state: the commit of a new session, where \<open>calculateTimeToBurn\<close> sets the
  budget anew.
\<close>

theorem completed_iff_budget_spent:
  "(samplingPoint i d \<and> loop i d = Inr d' \<longrightarrow>
      minutesToBurn d' =
        float32 (minutesToBurn d - float32 (1 * float32 (real (unat (uvRaw i)) / 100))) \<and>
      (state d' = STATE_COMPLETED \<longleftrightarrow> minutesToBurn d' \<le> 0))
   \<and> (samplingPoint i d \<and> adc i \<noteq> 0 \<and>
        float32 (minutesToBurn d - float32 (1 * float32 (real (unat (uvRaw i)) / 100))) \<le> 0 \<longrightarrow>
        outcome state (loop i d) = Some STATE_COMPLETED)
   \<and> (state e = STATE_RUNNING \<and> \<not> samplingPoint k e \<and> loop k e = Inr e' \<longrightarrow>
        state e' \<noteq> STATE_COMPLETED \<and> minutesToBurn e' = minutesToBurn e)
   \<and> (state c = STATE_COMPLETED \<longrightarrow>
        loop j c = Inr (c\<lparr>trace := trace c @ [PlayAlarm], state := STATE_POWER_OFF\<rparr>))
   \<and> (state c = STATE_COMPLETED \<and> passes js c = Inr ds \<longrightarrow> untilNewSession c ds)
   \<and> (state c = STATE_COMPLETED \<and> passes ks c = Inr es \<and>
        (\<forall>x\<in>set es. state x \<noteq> STATE_RUNNING) \<longrightarrow>
        (\<forall>x\<in>set es. minutesToBurn x = minutesToBurn c))"
proof (intro conjI impI)
  assume a: "samplingPoint i d \<and> loop i d = Inr d'"
  then have r: "state d = STATE_RUNNING" by (simp add: samplingPoint_def)
  from a loop_sampling [of i d] obtain d0 where
    s: "sample i d0 = Inr d'" "minutesToBurn d0 = minutesToBurn d" "state d0 = state d"
    by (cases "pressed (pwrPoll i)") auto
  from sample_result(1) [OF s(1)] s(2)
  show "minutesToBurn d' =
        float32 (minutesToBurn d - float32 (1 * float32 (real (unat (uvRaw i)) / 100)))"
    by simp
  from sample_result(2) [OF s(1)] s(3) r
  show "state d' = STATE_COMPLETED \<longleftrightarrow> minutesToBurn d' \<le> 0" by (simp add: state_defs)
next
  assume a: "samplingPoint i d \<and> adc i \<noteq> 0 \<and>
        float32 (minutesToBurn d - float32 (1 * float32 (real (unat (uvRaw i)) / 100))) \<le> 0"
  then show "outcome state (loop i d) = Some STATE_COMPLETED"
    using loop_sampling [of i d] by (cases "pressed (pwrPoll i)") (simp_all add: sample_completes)
next
  assume "state e = STATE_RUNNING \<and> \<not> samplingPoint k e \<and> loop k e = Inr e'"
  then show "state e' \<noteq> STATE_COMPLETED" "minutesToBurn e' = minutesToBurn e"
    using loop_not_sampling [of e k e'] by simp_all
next
  assume "state c = STATE_COMPLETED"
  then show "loop j c = Inr (c\<lparr>trace := trace c @ [PlayAlarm], state := STATE_POWER_OFF\<rparr>)"
    by (rule loop_completed)
next
  assume a: "state c = STATE_COMPLETED \<and> passes js c = Inr ds"
  then have "state c \<noteq> STATE_RUNNING" by (simp add: state_defs)
  with a show "untilNewSession c ds"
    using passes_untilNewSession [of c js ds] by simp
next
  assume a: "state c = STATE_COMPLETED \<and> passes ks c = Inr es \<and>
        (\<forall>x\<in>set es. state x \<noteq> STATE_RUNNING)"
  then have "state c \<noteq> STATE_RUNNING" by (simp add: state_defs)
  with a show "\<forall>x\<in>set es. minutesToBurn x = minutesToBurn c"
    using passes_idle_budget [of c ks es] by simp
qed
theorem completed_iff_budget_spent_witness:
  "samplingPoint (minuteIn 400 50) (runningAt 5 15 (1 / 2))
   \<and> adc (minuteIn 400 50) \<noteq> 0
   \<and> outcome state (loop (minuteIn 400 50) (runningAt 5 15 (1 / 2))) = Some STATE_COMPLETED
   \<and> outcome minutesToBurn (loop (minuteIn 400 50) (runningAt 5 15 (1 / 2))) = Some 0
   \<and> state (runningAt 5 3 (1 / 2)) = STATE_RUNNING
   \<and> \<not> samplingPoint (minuteIn 400 50) (runningAt 5 3 (1 / 2))
   \<and> outcome state (loop (minuteIn 400 50) (runningAt 5 3 (1 / 2))) = Some STATE_RUNNING
   \<and> outcome minutesToBurn (loop (minuteIn 400 50) (runningAt 5 3 (1 / 2))) = Some (1 / 2)
   \<and> state ((runningAt 5 0 0)\<lparr>state := STATE_COMPLETED\<rparr>) = STATE_COMPLETED
   \<and> outcome (map state)
        (passes [wakeIn, wakeIn, skinStartIn 0] ((runningAt 5 0 0)\<lparr>state := STATE_COMPLETED\<rparr>))
       = Some [STATE_POWER_OFF, STATE_CONFIG, STATE_RUNNING]
   \<and> outcome (map minutesToBurn)
        (passes [wakeIn, wakeIn, skinStartIn 0] ((runningAt 5 0 0)\<lparr>state := STATE_COMPLETED\<rparr>))
       = Some [0, 0, 67]
   \<and> outcome (map state)
        (passes [wakeIn, wakeIn, idleIn 0] ((runningAt 5 0 0)\<lparr>state := STATE_COMPLETED\<rparr>))
       = Some [STATE_POWER_OFF, STATE_CONFIG, STATE_POWER_OFF]
   \<and> outcome (map minutesToBurn)
        (passes [wakeIn, wakeIn, idleIn 0] ((runningAt 5 0 0)\<lparr>state := STATE_COMPLETED\<rparr>))
       = Some [0, 0, 0]"
proof -
  let ?c = "(runningAt 5 0 0)\<lparr>state := STATE_COMPLETED\<rparr>"
  have e1: "loop (minuteIn 400 50) (runningAt 5 15 (1 / 2))
      = Inr (projr (loop (minuteIn 400 50) (runningAt 5 15 (1 / 2))))"
    by (simp add: input_defs run_defs state_defs float_defs Let_def)
  have e2: "loop (minuteIn 400 50) (runningAt 5 3 (1 / 2))
      = Inr (projr (loop (minuteIn 400 50) (runningAt 5 3 (1 / 2))))"
    by (simp add: input_defs run_defs state_defs Let_def)
  have p1: "passes [wakeIn, wakeIn, skinStartIn 0] ?c
      = Inr (projr (passes [wakeIn, wakeIn, skinStartIn 0] ?c))"
    by (simp add: input_defs run_defs config_defs table_defs state_defs Let_def)
  have p2: "passes [wakeIn, wakeIn, idleIn 0] ?c
      = Inr (projr (passes [wakeIn, wakeIn, idleIn 0] ?c))"
    by (simp add: input_defs run_defs config_defs state_defs Let_def)
  have s1: "samplingPoint (minuteIn 400 50) (runningAt 5 15 (1 / 2))"
    by (simp add: samplingPoint_def input_defs run_defs state_defs)
  have s2: "\<not> samplingPoint (minuteIn 400 50) (runningAt 5 3 (1 / 2))"
    by (simp add: samplingPoint_def input_defs run_defs state_defs)
  have f: "float32 (minutesToBurn (runningAt 5 15 (1 / 2))
             - float32 (1 * float32 (real (unat (uvRaw (minuteIn 400 50))) / 100))) \<le> 0"
    by (simp add: input_defs float_defs)
  have n: "\<forall>x\<in>set (projr (passes [wakeIn, wakeIn, idleIn 0] ?c)). state x \<noteq> STATE_RUNNING"
    by (simp add: input_defs run_defs config_defs state_defs Let_def)
  have a: "adc (minuteIn 400 50) \<noteq> 0" "state (runningAt 5 3 (1 / 2)) = STATE_RUNNING"
    "state ?c = STATE_COMPLETED"
    by (simp_all add: input_defs state_defs)
  from completed_iff_budget_spent [of "minuteIn 400 50" "runningAt 5 15 (1 / 2)"
      "projr (loop (minuteIn 400 50) (runningAt 5 15 (1 / 2)))"
      "runningAt 5 3 (1 / 2)" "minuteIn 400 50"
      "projr (loop (minuteIn 400 50) (runningAt 5 3 (1 / 2)))"
      ?c wakeIn "[wakeIn, wakeIn, skinStartIn 0]"
      "projr (passes [wakeIn, wakeIn, skinStartIn 0] ?c)"
      "[wakeIn, wakeIn, idleIn 0]"
      "projr (passes [wakeIn, wakeIn, idleIn 0] ?c)"]
    e1 e2 p1 p2 s1 s2 f n a
  have "outcome state (loop (minuteIn 400 50) (runningAt 5 15 (1 / 2))) = Some STATE_COMPLETED
     \<and> state (projr (loop (minuteIn 400 50) (runningAt 5 3 (1 / 2)))) \<noteq> STATE_COMPLETED
     \<and> untilNewSession ?c (projr (passes [wakeIn, wakeIn, skinStartIn 0] ?c))
     \<and> (\<forall>x\<in>set (projr (passes [wakeIn, wakeIn, idleIn 0] ?c)). minutesToBurn x = minutesToBurn ?c)"
    by blast
  then show ?thesis
    by (simp add: samplingPoint_def input_defs run_defs config_defs table_defs state_defs
        float_defs Let_def)
qed

text \<open>
  The boundary: a budget of 0 and of -0.25 after the sample complete, 0.25 does not.
  And the arithmetic is that of \<open>float\<close>: a budget of 0.1 as a float holds, minus a UV
  index of 0.1 as a float computes, is 0 and completes, although the float is not 0.1;
  and 67 minus a UV index of 0.01 is the float next to 66.99, not 66.99.
\<close>

lemma budget_boundary_examples:
  "outcome minutesToBurn (loop (minuteIn 400 50) (runningAt 5 15 (1 / 2))) = Some 0
   \<and> outcome state (loop (minuteIn 400 50) (runningAt 5 15 (1 / 2))) = Some STATE_COMPLETED
   \<and> outcome minutesToBurn (loop (minuteIn 400 75) (runningAt 5 15 (1 / 2))) = Some (- 1 / 4)
   \<and> outcome state (loop (minuteIn 400 75) (runningAt 5 15 (1 / 2))) = Some STATE_COMPLETED
   \<and> outcome minutesToBurn (loop (minuteIn 400 25) (runningAt 5 15 (1 / 2))) = Some (1 / 4)
   \<and> outcome state (loop (minuteIn 400 25) (runningAt 5 15 (1 / 2))) = Some STATE_RUNNING
   \<and> float32 (1 / 10) = 13421773 / 134217728
   \<and> outcome minutesToBurn (loop (minuteIn 400 10) (runningAt 5 15 (13421773 / 134217728)))
       = Some 0
   \<and> outcome state (loop (minuteIn 400 10) (runningAt 5 15 (13421773 / 134217728)))
       = Some STATE_COMPLETED
   \<and> float32 (1 / 100) = 5368709 / 536870912
   \<and> outcome minutesToBurn (loop (minuteIn 400 1) (runningAt 5 15 67))
       = Some (8780513 / 131072)"
  by (simp add: input_defs run_defs state_defs float_defs Let_def)

subsection \<open>The battery tone\<close>

text \<open>A sampling point returns when the ADC reading is not zero and the watchdog runs.\<close>

lemma loop_sampling_returns:
  assumes "samplingPoint i d" "adc i \<noteq> 0" "wdtEnabled d" "wake i = WDT"
  shows "loop i d = Inr (projr (loop i d))"
  using assms(2-4) unfolding loop_sampling [OF assms(1)]
  by (simp add: sample_def getBandgap_def doMeasure_def sleepNow_def WDT_vect_def
      disable_watchdog_def shortBeep_def emit_def sensorPower_def Let_def)

text \<open>
  C7, as the code has it. A pass that reaches the measurement converts the supply
  voltage once and then plays the low-battery tone when the reading, an \<open>int\<close>, is
  less than or equal to \<open>MIN_BATT_VOLTS\<close>, and the short beep when it is greater.
\<close>

theorem battery_tone_at_sampling_point:
  assumes "samplingPoint i d" "loop i d = Inr d'"
  shows "vccVoltage d' = word_of_nat ((((1056 * 1023) div unat (adc i)) + 5) div 10)
     \<and> emitted d d' = [Delay 50, AdcRead] @
           (if vccVoltage d' <=s MIN_BATT_VOLTS then [Tone NOTE_C4 10 150 True]
            else [Tone NOTE_A7 10 10 True, ToneOff]) @
           [SensorPower True, Delay 200, UvBegin, Delay 100, UvRead, SensorPower False] @
           (if minutesToBurn d' \<le> 0 then [] else [Sleep])
     \<and> length (filter (\<lambda>a. a = AdcRead) (emitted d d')) = 1"
proof -
  from assms loop_sampling [of i d] obtain d0 where
    s: "sample i d0 = Inr d'" "trace d0 = trace d"
    by (cases "pressed (pwrPoll i)") auto
  from sample_result(3) [OF s(1)]
  have v: "vccVoltage d' = word_of_nat ((((1056 * 1023) div unat (adc i)) + 5) div 10)" .
  from sample_result(4) [OF s(1)] s(2)
  have t: "emitted d d' = [Delay 50, AdcRead] @
           (if vccVoltage d' <=s MIN_BATT_VOLTS then [Tone NOTE_C4 10 150 True]
            else [Tone NOTE_A7 10 10 True, ToneOff]) @
           [SensorPower True, Delay 200, UvBegin, Delay 100, UvRead, SensorPower False] @
           (if minutesToBurn d' \<le> 0 then [] else [Sleep])"
    by (simp add: emitted_def)
  have "length (filter (\<lambda>a. a = AdcRead) (emitted d d')) = 1"
    unfolding t by simp
  with v t show ?thesis by simp
qed

theorem battery_tone_at_sampling_point_witness:
  "samplingPoint (minuteIn 300 0) (runningAt 5 15 67)
   \<and> outcome vccVoltage (loop (minuteIn 300 0) (runningAt 5 15 67)) = Some 360
   \<and> outcome (emitted (runningAt 5 15 67)) (loop (minuteIn 300 0) (runningAt 5 15 67))
       = Some [Delay 50, AdcRead, Tone NOTE_A7 10 10 True, ToneOff, SensorPower True,
               Delay 200, UvBegin, Delay 100, UvRead, SensorPower False, Sleep]"
proof -
  have s: "samplingPoint (minuteIn 300 0) (runningAt 5 15 67)"
    by (simp add: samplingPoint_def input_defs run_defs state_defs)
  have e: "loop (minuteIn 300 0) (runningAt 5 15 67)
      = Inr (projr (loop (minuteIn 300 0) (runningAt 5 15 67)))"
    by (rule loop_sampling_returns [OF s]) (simp_all add: input_defs)
  have m: "minutesToBurn (projr (loop (minuteIn 300 0) (runningAt 5 15 67))) = 67"
    by (simp add: input_defs run_defs state_defs float_defs Let_def)
  from battery_tone_at_sampling_point [OF s e] m
  have "vccVoltage (projr (loop (minuteIn 300 0) (runningAt 5 15 67))) = 360
      \<and> emitted (runningAt 5 15 67) (projr (loop (minuteIn 300 0) (runningAt 5 15 67)))
       = [Delay 50, AdcRead, Tone NOTE_A7 10 10 True, ToneOff, SensorPower True,
               Delay 200, UvBegin, Delay 100, UvRead, SensorPower False, Sleep]"
    by (simp add: input_defs MIN_BATT_VOLTS_def)
  with s show ?thesis by (subst (1 2) e) simp
qed

text \<open>
  C7, as it is claimed, fails at the threshold: a reading of exactly 270 (the ADC reads
  400) is answered with the low-battery tone \<open>Tone NOTE_C4 10 150 True\<close>, and no short
  beep \<open>Tone NOTE_A7 10 10 True\<close> is played. A reading of 271 gets the short beep.
\<close>

theorem threshold_reading_gets_low_battery_tone:
  "outcome vccVoltage (loop (minuteIn 400 0) (runningAt 5 15 67)) = Some MIN_BATT_VOLTS
   \<and> outcome (emitted (runningAt 5 15 67)) (loop (minuteIn 400 0) (runningAt 5 15 67))
       = Some [Delay 50, AdcRead, Tone NOTE_C4 10 150 True, SensorPower True,
               Delay 200, UvBegin, Delay 100, UvRead, SensorPower False, Sleep]"
  by (simp add: input_defs run_defs state_defs emitted_def float_defs Let_def)

lemma reading_above_threshold_gets_short_beep:
  "outcome vccVoltage (loop (minuteIn 399 0) (runningAt 5 15 67)) = Some 271
   \<and> outcome (emitted (runningAt 5 15 67)) (loop (minuteIn 399 0) (runningAt 5 15 67))
       = Some [Delay 50, AdcRead, Tone NOTE_A7 10 10 True, ToneOff, SensorPower True,
               Delay 200, UvBegin, Delay 100, UvRead, SensorPower False, Sleep]"
  by (simp add: input_defs run_defs state_defs emitted_def float_defs Let_def)


subsection \<open>The commit and the EEPROM\<close>

lemma countBeep_writes_nothing:
  "filter isEepromWrite (concat (replicate n [Tone f 10 75 False, Delay 150])) = []"
  by (induction n) simp_all

text \<open>What \<open>commit\<close> does to the EEPROM, when it returns.\<close>

lemma commit_eeprom:
  assumes "commit l d = Inr d'"
  shows "skinType d' = tempSkinType l"
    and "tempSkinType l = skinType d \<Longrightarrow> eeprom d' = eeprom d"
    and "tempSkinType l = skinType d \<Longrightarrow> filter isEepromWrite (emitted d d') = []"
    and "tempSkinType l \<noteq> skinType d \<Longrightarrow>
           eeprom d' = (eeprom d)(EE_SKIN_TYPE := tempSkinType l)"
    and "tempSkinType l \<noteq> skinType d \<Longrightarrow>
           filter isEepromWrite (emitted d d') = [EepromWrite EE_SKIN_TYPE (tempSkinType l)]"
  using assms
  by (auto simp add: commit_def storeSkinType_def calculateTimeToBurn_def
      enable_watchdog_def playStart_def sensorPower_def eepromWrite_def countBeep_def
      emit_def emitted_def countBeep_writes_nothing Let_def split: sum.splits if_splits)

text \<open>The commit returns when both indices are inside the tables.\<close>

lemma commit_returns:
  assumes "tempSkinType l < 6" "spfIndex l < 6"
  shows "commit l d = Inr (projr (commit l d))"
proof -
  have s: "unat (tempSkinType l) < 6" "unat (spfIndex l) < 6"
    using assms by (simp_all add: word_less_nat_alt)
  show ?thesis
  proof (cases "tempSkinType l = skinType d")
    case True
    with s show ?thesis
      by (simp add: commit_def storeSkinType_def calculateTimeToBurn_def table_defs
          countBeep_def emit_def Let_def)
  next
    case False
    with s show ?thesis
      by (simp add: commit_def storeSkinType_def calculateTimeToBurn_def table_defs
          countBeep_def emit_def eepromWrite_def Let_def)
  qed
qed

text \<open>
  The first step of the commit, which no later step undoes: it writes the temporary skin
  type to \<open>EE_SKIN_TYPE\<close> exactly when it differs from \<open>skinType\<close>, for every skin type
  and SPF index, those past the tables included.
\<close>

lemma storeSkinType_frame:
  "eeprom (storeSkinType l d) =
     (if tempSkinType l = skinType d then eeprom d
      else (eeprom d)(EE_SKIN_TYPE := tempSkinType l))
   \<and> emitted d (storeSkinType l d) =
     (if tempSkinType l = skinType d then []
      else [EepromWrite EE_SKIN_TYPE (tempSkinType l)])
   \<and> skinType (storeSkinType l d) = tempSkinType l"
  by (simp add: storeSkinType_def eepromWrite_def emit_def emitted_def)

text \<open>A press of set held for the long-click time or more is the commit.\<close>

lemma setButtonTest_long_press:
  assumes "pressed (setPoll p)" "longHold (setHold p)"
  shows "setButtonTest p l d =
           (case commit l (d\<lparr>setTimer := setReleasedAt p\<rparr>) of
              Inl e \<Rightarrow> Inl e
            | Inr d3 \<Rightarrow> Inr (Return d3))"
proof -
  from assms(2) have "waitRelease (holdPolls (setHold p))"
    "\<not> timedTo (setHold p) - timedFrom (setHold p) < LONG_CLICK_MS"
    by (simp_all add: longHold_def not_less)
  with assms(1) show ?thesis
    by (simp add: setButtonTest_def pressed_def Let_def)
qed

text \<open>
  In terms of \<open>skinType\<close>, the copy of the stored skin type that the sketch compares
  with: no write when the temporary skin type equals it, one write of the new skin type
  to \<open>EE_SKIN_TYPE\<close> when it differs, and every other address keeps its byte.
\<close>

lemma commit_writes_on_change_of_skinType:
  assumes "pressed (setPoll p)" "longHold (setHold p)" "setButtonTest p l d = Inr f"
  shows "\<exists>d'. f = Return d' \<and> state d' = STATE_RUNNING \<and> skinType d' = tempSkinType l
     \<and> eeprom d' = (if tempSkinType l = skinType d then eeprom d
                    else (eeprom d)(EE_SKIN_TYPE := tempSkinType l))
     \<and> filter isEepromWrite (emitted d d')
          = (if tempSkinType l = skinType d then []
             else [EepromWrite EE_SKIN_TYPE (tempSkinType l)])"
proof -
  from assms(3) obtain d' where
    c: "commit l (d\<lparr>setTimer := setReleasedAt p\<rparr>) = Inr d'" and f: "f = Return d'"
    unfolding setButtonTest_long_press [OF assms(1,2)] by (auto split: sum.splits)
  have t: "emitted d d' = emitted (d\<lparr>setTimer := setReleasedAt p\<rparr>) d'"
    by (simp add: emitted_def)
  from commit_eeprom [OF c] commit_state [OF c] f t show ?thesis
    by simp
qed

text \<open>
  C8. The commit compares the temporary skin type with the variable \<open>skinType\<close>, which
  is the stored byte after every power-up but the first. After the first power-up the
  EEPROM holds skin type 1 and \<open>skinType\<close> is 0. A session with one press of skin
  (temporary skin type 1, equal to the stored one) then writes 1 over the stored 1; a
  session with no press of skin (temporary skin type 0, not the stored one) writes
  nothing. The lists give the device after \<open>setup()\<close>, after the wake-up and after the
  commit: its state, the stored skin type, \<open>skinType\<close>, and the number of writes to the
  EEPROM so far; the last list is all the writes.
\<close>

theorem first_boot_commit_writes_the_stored_class:
  "outcome (map state) (sketch blank bootIn [wakeIn, skinStartIn 0])
       = Some [STATE_POWER_OFF, STATE_CONFIG, STATE_RUNNING]
   \<and> outcome (map storedSkinType) (sketch blank bootIn [wakeIn, skinStartIn 0]) = Some [1, 1, 1]
   \<and> outcome (map skinType) (sketch blank bootIn [wakeIn, skinStartIn 0]) = Some [0, 0, 1]
   \<and> outcome (map (length \<circ> eepromWrites)) (sketch blank bootIn [wakeIn, skinStartIn 0])
       = Some [3, 3, 4]
   \<and> outcome (eepromWrites \<circ> last) (sketch blank bootIn [wakeIn, skinStartIn 0])
       = Some [EepromWrite EE_CHECKBYTE_1 0xBA, EepromWrite EE_CHECKBYTE_2 0xDA,
               EepromWrite EE_SKIN_TYPE 1, EepromWrite EE_SKIN_TYPE 1]
   \<and> outcome (map state) (sketch blank bootIn [wakeIn, startIn 0])
       = Some [STATE_POWER_OFF, STATE_CONFIG, STATE_RUNNING]
   \<and> outcome (map storedSkinType) (sketch blank bootIn [wakeIn, startIn 0]) = Some [1, 1, 1]
   \<and> outcome (map skinType) (sketch blank bootIn [wakeIn, startIn 0]) = Some [0, 0, 0]
   \<and> outcome (map (length \<circ> eepromWrites)) (sketch blank bootIn [wakeIn, startIn 0])
       = Some [3, 3, 3]
   \<and> outcome (eepromWrites \<circ> last) (sketch blank bootIn [wakeIn, startIn 0])
       = Some [EepromWrite EE_CHECKBYTE_1 0xBA, EepromWrite EE_CHECKBYTE_2 0xDA,
               EepromWrite EE_SKIN_TYPE 1]"
  by (simp add: sketch_def setup_fn_def eepromWrites_def storedSkinType_def input_defs
      run_defs config_defs table_defs state_defs float32_zero EE_CHECKBYTE_1_def
      EE_CHECKBYTE_2_def Let_def)


subsection \<open>The inactivity window\<close>






text \<open>While set is held the loop condition is not evaluated: a hold without end ends nothing.\<close>

lemma configBody_set_held:
  assumes "pressed (setPoll p)" "\<not> waitRelease (holdPolls (setHold p))"
  shows "configBody p l d = Inl NeverReturns"
  using assms by (simp add: configBody_def setButtonTest_def pressed_def Let_def)











text \<open>
  An example: entry at 0, a press of skin at 20000. The turns at 45000 and 49999 are
  inside the new window although they are more than 30000 after the entry; the turn at
  50000 ends the loop. Without the last turn the loop has not ended.
\<close>

lemma window_restart_example:
  "outcome state (doConfig \<lparr>tEnter = 0, polls = [skinClick 20000, idlePoll 45000,
       idlePoll 49999, idlePoll 50000]\<rparr> (powerUp (seeded 1))) = Some STATE_POWER_OFF
   \<and> doConfig \<lparr>tEnter = 0, polls = [skinClick 20000, idlePoll 45000, idlePoll 49999]\<rparr>
       (powerUp (seeded 1)) = Inl NeverReturns
   \<and> outcome state (doConfig \<lparr>tEnter = 0, polls = [idlePoll 29999, idlePoll 30000]\<rparr>
       (powerUp (seeded 1))) = Some STATE_POWER_OFF
   \<and> doConfig \<lparr>tEnter = 0, polls = [idlePoll 29999]\<rparr> (powerUp (seeded 1)) = Inl NeverReturns"
  by (simp add: config_defs input_defs Let_def)


subsection \<open>Twelve hours without sun\<close>

text \<open>
  A session in the dark: every pass is \<open>minuteIn a 0\<close>, no button, UV index 0, the
  watchdog ending every sleep. After \<open>n\<close> passes the device has counted \<open>n div 15\<close>
  minutes and is \<open>n mod 15 + 1\<close> watchdog periods into the next one.
\<close>

lemma dark_pass:
  assumes "state d = STATE_RUNNING" "wdtEnabled d" "a \<noteq> 0" "0 < minutesToBurn d"
    "unat (runningTimer d) = n div 15" "unat (wdtSleepCount d) = n mod 15 + 1"
    "n < 10799" "PlayAlarm \<notin> set (trace d)" "float32 (minutesToBurn d) = minutesToBurn d"
  shows "\<exists>d'. loop (minuteIn a 0) d = Inr d' \<and> state d' = STATE_RUNNING \<and> wdtEnabled d'
     \<and> minutesToBurn d' = minutesToBurn d
     \<and> unat (runningTimer d') = Suc n div 15 \<and> unat (wdtSleepCount d') = Suc n mod 15 + 1
     \<and> PlayAlarm \<notin> set (trace d')"
proof (cases "n mod 15 = 14")
  case False
  then have c: "wdtSleepCount d \<noteq> 15"
    using assms(6) by (auto simp add: word_unat_eq_iff)
  from False have m: "Suc n mod 15 = n mod 15 + 1" "Suc n div 15 = n div 15"
    by (simp_all add: mod_Suc div_Suc)
  have "unat (wdtSleepCount d + 1) = unat (wdtSleepCount d) + 1"
    using assms(6) by (simp add: unat_word_ariths)
  with assms c m show ?thesis
    by (simp add: loop_def running_def powerButton_def sleepNow_def WDT_vect_def emit_def
        minuteIn_def quiet_def state_defs Let_def)
next
  case True
  then have c: "wdtSleepCount d = 15"
    using assms(6) by (simp add: word_unat_eq_iff)
  from True have m: "Suc n mod 15 = 0" "Suc n div 15 = n div 15 + 1"
    by (simp_all add: mod_Suc div_Suc)
  from assms(7) have lt: "n div 15 < 719" using True by presburger
  have u: "unat (runningTimer d + 1) = unat (runningTimer d) + 1"
    using assms(5) lt by (simp add: unat_word_ariths)
  then have r: "runningTimer d + 1 \<noteq> MAX_RUNNING_TIME"
    using assms(5) lt by (auto simp add: word_unat_eq_iff MAX_RUNNING_TIME_def)
  from assms c r u m show ?thesis
    by (simp add: loop_def running_def powerButton_def sample_def getBandgap_def
        doMeasure_def sensorPower_def shortBeep_def sleepNow_def WDT_vect_def emit_def
        minuteIn_def quiet_def state_defs float32_zero Let_def)
qed

lemma dark_passes:
  assumes "state d = STATE_RUNNING" "wdtEnabled d" "a \<noteq> 0" "0 < minutesToBurn d"
    "unat (runningTimer d) = n div 15" "unat (wdtSleepCount d) = n mod 15 + 1"
    "n + k \<le> 10799" "PlayAlarm \<notin> set (trace d)" "float32 (minutesToBurn d) = minutesToBurn d"
  shows "\<exists>ds. passes (replicate k (minuteIn a 0)) d = Inr ds
     \<and> (\<forall>x\<in>set ds. state x = STATE_RUNNING)
     \<and> state (last (d # ds)) = STATE_RUNNING \<and> wdtEnabled (last (d # ds))
     \<and> minutesToBurn (last (d # ds)) = minutesToBurn d
     \<and> unat (runningTimer (last (d # ds))) = (n + k) div 15
     \<and> unat (wdtSleepCount (last (d # ds))) = (n + k) mod 15 + 1
     \<and> PlayAlarm \<notin> set (trace (last (d # ds)))"
  using assms
proof (induction k arbitrary: d n)
  case 0
  then show ?case by simp
next
  case (Suc k)
  from Suc.prems have "n < 10799" by simp
  from dark_pass [OF Suc.prems(1-6) this Suc.prems(8,9)] obtain d1 where
    d1: "loop (minuteIn a 0) d = Inr d1" "state d1 = STATE_RUNNING" "wdtEnabled d1"
      "minutesToBurn d1 = minutesToBurn d" "unat (runningTimer d1) = Suc n div 15"
      "unat (wdtSleepCount d1) = Suc n mod 15 + 1" "PlayAlarm \<notin> set (trace d1)"
    by blast
  from Suc.prems(4) d1(4) have b: "0 < minutesToBurn d1" by simp
  from Suc.prems(9) d1(4) have f: "float32 (minutesToBurn d1) = minutesToBurn d1" by simp
  from Suc.prems(7) have le: "Suc n + k \<le> 10799" by simp
  from Suc.IH [OF d1(2,3) Suc.prems(3) b d1(5,6) le d1(7) f] obtain ds where
    ds: "passes (replicate k (minuteIn a 0)) d1 = Inr ds"
      "\<forall>x\<in>set ds. state x = STATE_RUNNING"
      "state (last (d1 # ds)) = STATE_RUNNING" "wdtEnabled (last (d1 # ds))"
      "minutesToBurn (last (d1 # ds)) = minutesToBurn d1"
      "unat (runningTimer (last (d1 # ds))) = (Suc n + k) div 15"
      "unat (wdtSleepCount (last (d1 # ds))) = (Suc n + k) mod 15 + 1"
      "PlayAlarm \<notin> set (trace (last (d1 # ds)))"
    by blast
  have "passes (replicate (Suc k) (minuteIn a 0)) d = Inr (d1 # ds)"
    using d1(1) ds(1) by simp
  with d1 ds show ?case by (intro exI [of _ "d1 # ds"]) simp
qed

lemma passes_length:
  assumes "passes js d = Inr ds"
  shows "length ds = length js"
  using assms by (induction js arbitrary: d ds) (auto split: sum.splits)

lemma passes_append:
  "passes (is @ js) d =
     (case passes is d of
        Inl e \<Rightarrow> Inl e
      | Inr ds \<Rightarrow> (case passes js (last (d # ds)) of
                     Inl e \<Rightarrow> Inl e | Inr es \<Rightarrow> Inr (ds @ es)))"
  by (induction "is" arbitrary: d) (auto split: sum.splits)

text \<open>
  The session of 720 minutes, 15 passes each, with a budget \<open>b\<close> that is a float: all
  passes but the last end in the running state, the last in the power-off state; the
  budget is untouched and no alarm is played.
\<close>

lemma twelve_hours_in_the_dark:
  assumes "a \<noteq> 0" "0 < b" "float32 b = b"
  shows "\<exists>ds d'. passes (replicate 10800 (minuteIn a 0)) (runningAt 0 1 b) = Inr (ds @ [d'])
     \<and> length ds = 10799 \<and> (\<forall>x\<in>set ds. state x = STATE_RUNNING)
     \<and> state d' = STATE_POWER_OFF \<and> minutesToBurn d' = b
     \<and> PlayAlarm \<notin> set (trace d')"
proof -
  have i: "state (runningAt 0 1 b) = STATE_RUNNING" "wdtEnabled (runningAt 0 1 b)"
    "0 < minutesToBurn (runningAt 0 1 b)"
    "unat (runningTimer (runningAt 0 1 b)) = 0 div 15"
    "unat (wdtSleepCount (runningAt 0 1 b)) = 0 mod 15 + 1"
    "0 + 10799 \<le> (10799::nat)" "PlayAlarm \<notin> set (trace (runningAt 0 1 b))"
    "float32 (minutesToBurn (runningAt 0 1 b)) = minutesToBurn (runningAt 0 1 b)"
    using assms(2,3) by (simp_all add: runningAt_def powerUp_def)
  from dark_passes [OF i(1,2) assms(1) i(3-8)] obtain ds where
    ds: "passes (replicate 10799 (minuteIn a 0)) (runningAt 0 1 b) = Inr ds"
      "\<forall>x\<in>set ds. state x = STATE_RUNNING"
      "state (last (runningAt 0 1 b # ds)) = STATE_RUNNING"
      "minutesToBurn (last (runningAt 0 1 b # ds)) = minutesToBurn (runningAt 0 1 b)"
      "unat (runningTimer (last (runningAt 0 1 b # ds))) = (0 + 10799) div 15"
      "unat (wdtSleepCount (last (runningAt 0 1 b # ds))) = (0 + 10799) mod 15 + 1"
      "PlayAlarm \<notin> set (trace (last (runningAt 0 1 b # ds)))"
    by blast
  let ?e = "last (runningAt 0 1 b # ds)"
  from ds(5) have "runningTimer ?e = 719"
    by (simp add: word_unat_eq_iff)
  then have r: "runningTimer ?e + 1 = MAX_RUNNING_TIME"
    by (simp add: MAX_RUNNING_TIME_def)
  from ds(6) have c: "wdtSleepCount ?e = 15"
    by (simp add: word_unat_eq_iff)
  have l: "loop (minuteIn a 0) ?e = Inr (?e\<lparr>wdtSleepCount := 0,
      runningTimer := MAX_RUNNING_TIME, wdtEnabled := False, state := STATE_POWER_OFF\<rparr>)"
    using ds(3) c r by (simp add: loop_def running_def state_defs disable_watchdog_def Let_def)
  have n: "length ds = 10799"
    using passes_length [OF ds(1)] by simp
  have "(10800::nat) = Suc 10799" by simp
  then have "replicate 10800 (minuteIn a 0) = replicate 10799 (minuteIn a 0) @ [minuteIn a 0]"
    by (simp only: replicate_Suc replicate_append_same)
  then have "passes (replicate 10800 (minuteIn a 0)) (runningAt 0 1 b)
      = Inr (ds @ [?e\<lparr>wdtSleepCount := 0,
      runningTimer := MAX_RUNNING_TIME, wdtEnabled := False, state := STATE_POWER_OFF\<rparr>])"
    using ds(1) l by (simp add: passes_append)
  with ds n show ?thesis
    by (intro exI [of _ ds] exI [of _ "?e\<lparr>wdtSleepCount := 0,
      runningTimer := MAX_RUNNING_TIME, wdtEnabled := False, state := STATE_POWER_OFF\<rparr>"])
       (simp add: runningAt_def)
qed


subsection \<open>The EEPROM over a whole configuration\<close>

text \<open>
  A turn of the loop that stays in the loop writes nothing; \<open>doConfig()\<close> as a whole
  writes at most once, at the commit, the new skin type to \<open>EE_SKIN_TYPE\<close>.
\<close>

lemma configBody_Continue_frame:
  assumes "configBody p l d = Inr (Continue l' d')"
  shows "eeprom d' = eeprom d \<and> skinType d' = skinType d
       \<and> (\<exists>as. trace d' = trace d @ as \<and> filter isEepromWrite as = [])"
  using assms
  by (auto simp add: configBody_def setButtonTest_def skinButtonTest_def emit_def Let_def
      split: if_splits sum.splits flow.splits)

lemma commit_frame:
  assumes "commit l d = Inr d'"
  shows "eeprom d' = (if skinType d' = skinType d then eeprom d
                     else (eeprom d)(EE_SKIN_TYPE := skinType d'))
       \<and> (\<exists>as. trace d' = trace d @ as \<and> filter isEepromWrite as =
             (if skinType d' = skinType d then []
              else [EepromWrite EE_SKIN_TYPE (skinType d')]))"
  using assms
  by (auto simp add: commit_def storeSkinType_def calculateTimeToBurn_def
      enable_watchdog_def playStart_def sensorPower_def eepromWrite_def countBeep_def
      emit_def countBeep_writes_nothing Let_def split: sum.splits if_splits)

lemma configBody_Return_frame:
  assumes "configBody p l d = Inr (Return d')"
  shows "eeprom d' = (if skinType d' = skinType d then eeprom d
                     else (eeprom d)(EE_SKIN_TYPE := skinType d'))
       \<and> (\<exists>as. trace d' = trace d @ as \<and> filter isEepromWrite as =
             (if skinType d' = skinType d then []
              else [EepromWrite EE_SKIN_TYPE (skinType d')]))"
proof -
  from assms obtain e where c: "commit l e = Inr d'"
    and e: "eeprom e = eeprom d" "skinType e = skinType d" "trace e = trace d"
    by (auto simp add: configBody_def setButtonTest_def Let_def
        split: if_splits sum.splits flow.splits prod.splits)
  from commit_frame [OF c] e show ?thesis by simp
qed

lemma configLoop_frame:
  assumes "configLoop ps l d = Inr d'"
  shows "eeprom d' = (if skinType d' = skinType d then eeprom d
                     else (eeprom d)(EE_SKIN_TYPE := skinType d'))
       \<and> (\<exists>as. trace d' = trace d @ as \<and> filter isEepromWrite as =
             (if skinType d' = skinType d then []
              else [EepromWrite EE_SKIN_TYPE (skinType d')]))"
  using assms
proof (induction ps arbitrary: l d)
  case Nil
  then show ?case by simp
next
  case (Cons p ps)
  show ?case
  proof (cases "tLoop p - setTimer d < SET_TIMEOUT")
    case False
    with Cons.prems show ?thesis by auto
  next
    case True
    show ?thesis
    proof (cases "configBody p l d")
      case (Inl e)
      with True Cons.prems show ?thesis by simp
    next
      case (Inr f)
      show ?thesis
      proof (cases f)
        case (Continue l1 d1)
        with Inr True Cons.prems have r: "configLoop ps l1 d1 = Inr d'" by simp
        from configBody_Continue_frame [of p l d l1 d1] Inr Continue obtain as where
          s: "eeprom d1 = eeprom d" "skinType d1 = skinType d" "trace d1 = trace d @ as"
             "filter isEepromWrite as = []"
          by auto
        from Cons.IH [OF r] obtain bs where
          t: "eeprom d' = (if skinType d' = skinType d1 then eeprom d1
                     else (eeprom d1)(EE_SKIN_TYPE := skinType d'))"
             "trace d' = trace d1 @ bs"
             "filter isEepromWrite bs = (if skinType d' = skinType d1 then []
                 else [EepromWrite EE_SKIN_TYPE (skinType d')])"
          by auto
        from s t have "trace d' = trace d @ (as @ bs)"
          "filter isEepromWrite (as @ bs) = (if skinType d' = skinType d then []
                 else [EepromWrite EE_SKIN_TYPE (skinType d')])"
          by simp_all
        with s t(1) show ?thesis by metis
      next
        case (Return d1)
        with Inr True Cons.prems have "d' = d1" by simp
        with configBody_Return_frame [of p l d d1] Inr Return show ?thesis
          by (simp split: if_splits)
      qed
    qed
  qed
qed

lemma doConfig_frame:
  assumes "doConfig c d = Inr d'"
  shows "eeprom d' = (if skinType d' = skinType d then eeprom d
                     else (eeprom d)(EE_SKIN_TYPE := skinType d'))
       \<and> filter isEepromWrite (emitted d d') =
             (if skinType d' = skinType d then []
              else [EepromWrite EE_SKIN_TYPE (skinType d')])"
proof -
  from configLoop_frame [OF assms [unfolded doConfig_def Let_def]] obtain as where
    "eeprom d' = (if skinType d' = skinType d then eeprom d
                     else (eeprom d)(EE_SKIN_TYPE := skinType d'))"
    "trace d' = trace d @ [Tone NOTE_C4 10 150 False, Tone NOTE_G4 10 150 False,
        Tone NOTE_C5 10 150 False, Tone NOTE_G5 10 150 False, Tone NOTE_C6 10 150 False,
        ToneOff] @ as"
    "filter isEepromWrite as = (if skinType d' = skinType d then []
              else [EepromWrite EE_SKIN_TYPE (skinType d')])"
    by (auto simp add: playStartup_def emit_def)
  then show ?thesis by (simp add: emitted_def)
qed

text \<open>
  When \<open>skinType\<close> is the byte at \<open>EE_SKIN_TYPE\<close>, as \<open>setup()\<close> leaves it on every
  boot that finds the check bytes, it stays so over every pass of \<open>loop()\<close>. The
  comparison of the commit is then a comparison with the stored byte.
\<close>

lemma loop_keeps_skinType_stored:
  assumes "skinType d = eeprom d EE_SKIN_TYPE" "loop i d = Inr d'"
  shows "skinType d' = eeprom d' EE_SKIN_TYPE"
proof (cases "state d = STATE_CONFIG")
  case True
  with assms(2) obtain d1 where d1: "doConfig (cfg i) d = Inr d1"
    and e: "skinType d' = skinType d1" "eeprom d' = eeprom d1"
    by (auto simp add: loop_def sleepNow_def enable_watchdog_def emit_def pin2_isr_def
        WDT_vect_def Let_def split: sum.splits if_splits irq.splits)
  from doConfig_frame [OF d1] assms(1) e show ?thesis
    by (auto split: if_splits)
next
  case False
  with assms show ?thesis
    by (auto simp add: loop_def running_def sample_def powerButton_def getBandgap_def
        doMeasure_def shortBeep_def powerOff_def powerOffEntry_def sleepNow_def
        playAlarm_def playShutdown_def sensorPower_def attachInterrupt_def
        disable_watchdog_def emit_def pin2_isr_def WDT_vect_def Let_def
        split: if_splits irq.splits sum.splits prod.splits bool.splits)
qed

text \<open>
  So whenever \<open>skinType\<close> is the stored byte, the commit writes exactly when the
  temporary skin type is not the stored one.
\<close>

lemma storeSkinType_of_stored:
  assumes "skinType d = storedSkinType d"
  shows "emitted d (storeSkinType l d) =
           (if tempSkinType l = storedSkinType d then []
            else [EepromWrite EE_SKIN_TYPE (tempSkinType l)])"
  using assms storeSkinType_frame [of l d] by simp


subsection \<open>Further facts\<close>

text \<open>The budget computation fails exactly when one of the two indices is 6 or more.\<close>

lemma calculateTimeToBurn_out_of_bounds_iff:
  "calculateTimeToBurn idx d = Inl OutOfBounds \<longleftrightarrow> 6 \<le> unat (skinType d) \<or> 6 \<le> unat idx"
  by (auto simp add: calculateTimeToBurn_def table_defs split: sum.splits)

text \<open>
  A change of a button to \<open>HIGH\<close> that the loop of \<open>doConfig()\<close> itself sees (not the
  one that ends a hold of set) changes nothing, \<open>setTimer\<close> included.
\<close>

lemma configBody_no_press:
  assumes "\<not> pressed (setPoll p)" "\<not> pressed (skinPoll p)"
  shows "configBody p l d = Inr (Continue l d)"
  using assms
  by (auto simp add: configBody_def setButtonTest_def skinButtonTest_def pressed_def)


end
